theory Spec2Isabelle
  imports Main
begin

section \<open>JavaScript values\<close>

text \<open>
  The values that travel through \<open>DBClient\<close>: conditions, records and bound parameters.
  An object is the list of its own enumerable string-keyed properties in the order in which
  \<open>Object.entries\<close>, \<open>Object.keys\<close> and \<open>Object.values\<close> enumerate them. For keys that
  are not array indices (every column name that SQL accepts unquoted) this is the order in
  which the keys were inserted. Among these values the numbers are the integers and
  \<open>NaN\<close>; the code neither computes with a value nor prints one.
\<close>

datatype jsval =
    JUndefined
  | JNull
  | JBool bool
  | JNum int
  | JNaN
  | JStr string
  | JArr "jsval list"
  | JObj "(string \<times> jsval) list"

type_synonym jsobject = "(string \<times> jsval) list"

text \<open>The \<open>typeof\<close> operator.\<close>

fun typeof :: "jsval \<Rightarrow> string" where
  "typeof JUndefined = ''undefined''"
| "typeof JNull = ''object''"
| "typeof (JBool b) = ''boolean''"
| "typeof (JNum n) = ''number''"
| "typeof JNaN = ''number''"
| "typeof (JStr s) = ''string''"
| "typeof (JArr xs) = ''object''"
| "typeof (JObj es) = ''object''"

fun isArray :: "jsval \<Rightarrow> bool" where
  "isArray (JArr xs) = True"
| "isArray v = False"

text \<open>Conversion to boolean, as \<open>!v\<close>, \<open>if (v)\<close> and \<open>v || w\<close> perform it.\<close>

fun truthy :: "jsval \<Rightarrow> bool" where
  "truthy JUndefined = False"
| "truthy JNull = False"
| "truthy (JBool b) = b"
| "truthy (JNum n) = (n \<noteq> 0)"
| "truthy JNaN = False"
| "truthy (JStr s) = (s \<noteq> [])"
| "truthy (JArr xs) = True"
| "truthy (JObj es) = True"

text \<open>Decimal text of an array index, the property names of an array.\<close>

definition digit_char :: "nat \<Rightarrow> char" where
  "digit_char d = ''0123456789'' ! d"

fun decimal :: "nat \<Rightarrow> string" where
  "decimal n = (if 10 \<le> n then decimal (n div 10) else []) @ [digit_char (n mod 10)]"

declare decimal.simps [simp del]

text \<open>
  \<open>Object.entries\<close>: the properties of an object, the index/element pairs of an array, the
  index/character pairs of a string, nothing for the other primitives. (On \<open>undefined\<close> and
  \<open>null\<close> JavaScript raises a TypeError; the code below never passes them.)
\<close>

fun Object_entries :: "jsval \<Rightarrow> (string \<times> jsval) list" where
  "Object_entries (JObj es) = es"
| "Object_entries (JArr xs) = zip (map decimal [0..<length xs]) xs"
| "Object_entries (JStr s) = zip (map decimal [0..<length s]) (map (\<lambda>c. JStr [c]) s)"
| "Object_entries v = []"

text \<open>\<open>Array.prototype.join\<close> on an array of strings.\<close>

fun join :: "string \<Rightarrow> string list \<Rightarrow> string" where
  "join sep [] = []"
| "join sep [x] = x"
| "join sep (x # y # ys) = x @ sep @ join sep (y # ys)"

section \<open>Errors\<close>

text \<open>
  What a \<open>throw\<close> carries: a \<open>DatabaseError\<close> with its message, another \<open>Error\<close> instance
  (a driver error) with its message, or a value that is no \<open>Error\<close>, given by the text
  \<open>String\<close> makes of it. \<open>error_text\<close> is the expression
  \<open>error instanceof Error ? error.message : String(error)\<close> of every catch block.
\<close>

datatype thrown =
    DatabaseError string
  | OtherError string
  | NonError string

fun error_text :: "thrown \<Rightarrow> string" where
  "error_text (DatabaseError m) = m"
| "error_text (OtherError m) = m"
| "error_text (NonError s) = s"

section \<open>buildWhereClause\<close>

text \<open>
  \<open>forEach\<close> with a callback that may throw: the first exception ends the loop and
  propagates; otherwise the accumulated state is handed on.
\<close>

fun forEach :: "('a \<Rightarrow> 's \<Rightarrow> thrown + 's) \<Rightarrow> 'a list \<Rightarrow> 's \<Rightarrow> thrown + 's" where
  "forEach f [] s = Inr s"
| "forEach f (x # xs) s = (case f x s of Inl e \<Rightarrow> Inl e | Inr s' \<Rightarrow> forEach f xs s')"

text \<open>The two arrays \<open>conditions\<close> and \<open>params\<close> that the callbacks push onto.\<close>

type_synonym where_acc = "string list \<times> jsval list"

text \<open>The inner callback: the \<open>switch (operator)\<close>.\<close>

fun operator_case :: "string \<Rightarrow> string \<times> jsval \<Rightarrow> where_acc \<Rightarrow> thrown + where_acc" where
  "operator_case key (operator, operatorValue) (conditions, params) =
     (if operator = ''gt'' then Inr (conditions @ [key @ '' > ?''], params @ [operatorValue])
      else if operator = ''lt'' then Inr (conditions @ [key @ '' < ?''], params @ [operatorValue])
      else if operator = ''gte'' then Inr (conditions @ [key @ '' >= ?''], params @ [operatorValue])
      else if operator = ''lte'' then Inr (conditions @ [key @ '' <= ?''], params @ [operatorValue])
      else if operator = ''ne'' then Inr (conditions @ [key @ '' != ?''], params @ [operatorValue])
      else Inl (DatabaseError (''Unknown operator: '' @ operator)))"

text \<open>
  The outer callback, with the source's order of tests: first
  \<open>typeof value === 'object' && value !== null\<close>, then \<open>Array.isArray(value)\<close>, then the
  equality case.
\<close>

fun where_entry :: "string \<times> jsval \<Rightarrow> where_acc \<Rightarrow> thrown + where_acc" where
  "where_entry (key, v) (conditions, params) =
     (if typeof v = ''object'' \<and> v \<noteq> JNull then
        forEach (operator_case key) (Object_entries v) (conditions, params)
      else if isArray v then
        (case v of
           JArr xs \<Rightarrow>
             Inr (conditions @ [key @ '' IN ('' @ join '', '' (map (\<lambda>_. ''?'') xs) @ '')''],
                  params @ xs)
         | _ \<Rightarrow> Inr (conditions, params))
      else Inr (conditions @ [key @ '' = ?''], params @ [v]))"

record where_clause =
  clause :: string
  params :: "jsval list"

definition buildWhereClause :: "jsobject \<Rightarrow> thrown + where_clause" where
  "buildWhereClause whr =
     (case forEach where_entry whr ([], []) of
        Inl e \<Rightarrow> Inl e
      | Inr (conditions, ps) \<Rightarrow>
          Inr \<lparr>clause = (if length conditions > 0
                          then ''WHERE '' @ join '' AND '' conditions else ''''),
               params = ps\<rparr>)"

text \<open>
  The table of operators and symbols as the specification lists it (\<open>op_symbol\<close>), to be
  compared with the \<open>switch\<close> above, and with it what one operator entry and one condition
  entry contribute when nothing is thrown.
\<close>

definition op_symbol :: "string \<Rightarrow> string option" where
  "op_symbol operator =
     (if operator = ''gt'' then Some ''>''
      else if operator = ''lt'' then Some ''<''
      else if operator = ''gte'' then Some ''>=''
      else if operator = ''lte'' then Some ''<=''
      else if operator = ''ne'' then Some ''!=''
      else None)"

definition operator_fragment :: "string \<Rightarrow> string \<times> jsval \<Rightarrow> string" where
  "operator_fragment key e = key @ '' '' @ the (op_symbol (fst e)) @ '' ?''"

definition unknown_operator :: "string \<times> jsval \<Rightarrow> bool" where
  "unknown_operator e = (op_symbol (fst e) = None)"

definition object_like :: "jsval \<Rightarrow> bool" where
  "object_like v = (typeof v = ''object'' \<and> v \<noteq> JNull)"

text \<open>A scalar is a value that is neither an array nor an object.\<close>

fun scalar :: "jsval \<Rightarrow> bool" where
  "scalar (JArr xs) = False"
| "scalar (JObj es) = False"
| "scalar v = True"

definition entry_fragments :: "string \<times> jsval \<Rightarrow> string list" where
  "entry_fragments e =
     (if object_like (snd e) then map (operator_fragment (fst e)) (Object_entries (snd e))
      else [fst e @ '' = ?''])"

definition entry_params :: "string \<times> jsval \<Rightarrow> jsval list" where
  "entry_params e =
     (if object_like (snd e) then map snd (Object_entries (snd e)) else [snd e])"

text \<open>
  The operator entries that the compilation of an entry goes through, and the first
  operator of a condition, in the order of the compilation, that is none of the five.
\<close>

definition entry_operators :: "string \<times> jsval \<Rightarrow> (string \<times> jsval) list" where
  "entry_operators e = (if object_like (snd e) then Object_entries (snd e) else [])"

definition first_unknown :: "jsobject \<Rightarrow> string option" where
  "first_unknown whr =
     map_option fst (List.find unknown_operator (concat (map entry_operators whr)))"

text \<open>
  Two condition values have the same shape when both are scalars, or both arrays of one
  length, or both operator objects with the same keys in the same order; two conditions
  when they have the same keys in the same order and values of the same shape.
\<close>

definition same_shape_value :: "jsval \<Rightarrow> jsval \<Rightarrow> bool" where
  "same_shape_value v w =
     (case (v, w) of
        (JArr xs, JArr ys) \<Rightarrow> length xs = length ys
      | (JObj es, JObj fs) \<Rightarrow> map fst es = map fst fs
      | _ \<Rightarrow> scalar v \<and> scalar w)"

definition same_shape :: "jsobject \<Rightarrow> jsobject \<Rightarrow> bool" where
  "same_shape = list_all2 (\<lambda>a b. fst a = fst b \<and> same_shape_value (snd a) (snd b))"

text \<open>What a compilation shows of its clause text: the text, or the exception thrown.\<close>

definition clause_text :: "thrown + where_clause \<Rightarrow> thrown + string" where
  "clause_text r = (case r of Inl e \<Rightarrow> Inl e | Inr wc \<Rightarrow> Inr (clause wc))"

text \<open>
  A fragment for a column: the column name, one of the six comparison symbols, and one
  placeholder.
\<close>

definition fragment_of :: "string \<Rightarrow> string \<Rightarrow> bool" where
  "fragment_of key f =
     (f \<in> set (map (\<lambda>sy. key @ '' '' @ sy @ '' ?'') [''='', ''>'', ''<'', ''>='', ''<='', ''!='']))"

text \<open>The number of question marks in a text.\<close>

definition qmarks :: "string \<Rightarrow> nat" where
  "qmarks s = count_list s CHR ''?''"

text \<open>An entry all of whose operators (if it has any) are among the five known ones.\<close>

definition entry_known :: "string \<times> jsval \<Rightarrow> bool" where
  "entry_known e =
     (object_like (snd e) \<longrightarrow> List.find unknown_operator (Object_entries (snd e)) = None)"

text \<open>Of the state of the two arrays, or the exception, the part that holds text.\<close>

definition text_part :: "thrown + where_acc \<Rightarrow> thrown + string list" where
  "text_part r = (case r of Inl e \<Rightarrow> Inl e | Inr acc \<Rightarrow> Inr (fst acc))"

section \<open>The storage driver\<close>

text \<open>
  The \<open>sqlite\<close> module as the client uses it: \<open>open\<close>, and on the connection \<open>run\<close>,
  \<open>get\<close>, \<open>all\<close> and \<open>close\<close>. Each call may throw, and each may change the state \<open>'s\<close>
  of the storage. Of the result of \<open>run\<close> the client reads \<open>changes\<close> only.
\<close>

record run_result =
  changes :: "nat option"

record ('h, 's) driver =
  drv_open :: "string \<Rightarrow> 's \<Rightarrow> (thrown + 'h) \<times> 's"
  drv_run :: "'h \<Rightarrow> string \<Rightarrow> jsval list \<Rightarrow> 's \<Rightarrow> (thrown + run_result) \<times> 's"
  drv_get :: "'h \<Rightarrow> string \<Rightarrow> jsval list \<Rightarrow> 's \<Rightarrow> (thrown + jsval) \<times> 's"
  drv_all :: "'h \<Rightarrow> string \<Rightarrow> jsval list \<Rightarrow> 's \<Rightarrow> (thrown + jsval list) \<times> 's"
  drv_close :: "'h \<Rightarrow> 's \<Rightarrow> (thrown + unit) \<times> 's"

datatype driver_call =
    DbRun string "jsval list"
  | DbGet string "jsval list"
  | DbAll string "jsval list"

section \<open>DBClient\<close>

text \<open>
  The instance (\<open>db\<close>, and \<open>database\<close> for \<open>config.database\<close>) together with the state of
  the storage behind it and the statements handed to the driver so far, oldest first.
\<close>

record ('h, 's) client =
  db :: "'h option"
  database :: string
  storage :: 's
  issued :: "driver_call list"

definition new_client :: "string \<Rightarrow> 's \<Rightarrow> ('h, 's) client" where
  "new_client file s = \<lparr>db = None, database = file, storage = s, issued = []\<rparr>"

definition db_run ::
  "('h, 's) driver \<Rightarrow> 'h \<Rightarrow> string \<Rightarrow> jsval list \<Rightarrow> ('h, 's) client
     \<Rightarrow> (thrown + run_result) \<times> ('h, 's) client" where
  "db_run D h sql ps c =
     (case drv_run D h sql ps (storage c) of
        (r, s') \<Rightarrow> (r, c\<lparr>storage := s', issued := issued c @ [DbRun sql ps]\<rparr>))"

definition db_get ::
  "('h, 's) driver \<Rightarrow> 'h \<Rightarrow> string \<Rightarrow> jsval list \<Rightarrow> ('h, 's) client
     \<Rightarrow> (thrown + jsval) \<times> ('h, 's) client" where
  "db_get D h sql ps c =
     (case drv_get D h sql ps (storage c) of
        (r, s') \<Rightarrow> (r, c\<lparr>storage := s', issued := issued c @ [DbGet sql ps]\<rparr>))"

definition db_all ::
  "('h, 's) driver \<Rightarrow> 'h \<Rightarrow> string \<Rightarrow> jsval list \<Rightarrow> ('h, 's) client
     \<Rightarrow> (thrown + jsval list) \<times> ('h, 's) client" where
  "db_all D h sql ps c =
     (case drv_all D h sql ps (storage c) of
        (r, s') \<Rightarrow> (r, c\<lparr>storage := s', issued := issued c @ [DbAll sql ps]\<rparr>))"

text \<open>
  The catch block every data operation ends with:
  \<open>throw new DatabaseError(`<prefix>${error instanceof Error ? error.message : String(error)}`)\<close>.
\<close>

definition try_catch :: "string \<Rightarrow> (thrown + 'a) \<times> 'c \<Rightarrow> (thrown + 'a) \<times> 'c" where
  "try_catch prefix body =
     (case body of
        (Inl e, c) \<Rightarrow> (Inl (DatabaseError (prefix @ error_text e)), c)
      | (Inr v, c) \<Rightarrow> (Inr v, c))"

definition connect :: "('h, 's) driver \<Rightarrow> ('h, 's) client \<Rightarrow> (thrown + unit) \<times> ('h, 's) client" where
  "connect D c =
     (case drv_open D (database c) (storage c) of
        (Inl e, s') \<Rightarrow>
          (Inl (DatabaseError (''Failed to connect to database: '' @ error_text e)),
           c\<lparr>storage := s'\<rparr>)
      | (Inr h, s') \<Rightarrow> (Inr (), c\<lparr>db := Some h, storage := s'\<rparr>))"

definition ensureConnected :: "('h, 's) client \<Rightarrow> thrown + 'h" where
  "ensureConnected c =
     (case db c of
        None \<Rightarrow> Inl (DatabaseError ''Database not connected. Call connect() first.'')
      | Some h \<Rightarrow> Inr h)"

definition createTable_body ::
  "('h, 's) driver \<Rightarrow> 'h \<Rightarrow> string \<Rightarrow> (string \<times> string) list \<Rightarrow> ('h, 's) client
     \<Rightarrow> (thrown + jsval list) \<times> ('h, 's) client" where
  "createTable_body D h table columns c =
     (let columnDefinitions = join '', '' (map (\<lambda>(key, ty). key @ '' '' @ ty) columns)
      in case db_run D h (''CREATE TABLE IF NOT EXISTS '' @ table @ '' ('' @ columnDefinitions @ '')'')
                [] c of
           (Inl e, c') \<Rightarrow> (Inl e, c')
         | (Inr r, c') \<Rightarrow> (Inr [], c'))"

definition createTable ::
  "('h, 's) driver \<Rightarrow> string \<Rightarrow> (string \<times> string) list \<Rightarrow> ('h, 's) client
     \<Rightarrow> (thrown + jsval list) \<times> ('h, 's) client" where
  "createTable D table columns c =
     (case ensureConnected c of
        Inl e \<Rightarrow> (Inl e, c)
      | Inr h \<Rightarrow> try_catch ''Failed to create table: '' (createTable_body D h table columns c))"

text \<open>
  \<open>QueryOptions\<close>: every field optional (\<open>None\<close> is \<open>undefined\<close>). The code uses
  \<open>limit\<close> and \<open>offset\<close> in two ways only: the test \<open>typeof limit === 'number'\<close> and the
  template literal \<open>${limit}\<close>. A number is therefore given by the text that the template
  literal makes of it (\<open>10\<close>, \<open>2.5\<close>, \<open>1e+21\<close>, \<open>NaN\<close>, \<open>Infinity\<close>), and \<open>None\<close> is a
  value that is no number. \<open>orderBy\<close> is a string, as the interface declares it.
\<close>

record query_options =
  qwhere :: "jsobject option"
  limit :: "string option"
  offset :: "string option"
  orderBy :: "string option"

definition no_options :: query_options where
  "no_options = \<lparr>qwhere = None, limit = None, offset = None, orderBy = None\<rparr>"

definition find_body ::
  "('h, 's) driver \<Rightarrow> 'h \<Rightarrow> string \<Rightarrow> query_options \<Rightarrow> ('h, 's) client
     \<Rightarrow> (thrown + jsval list) \<times> ('h, 's) client" where
  "find_body D h table options c =
     (case buildWhereClause (case qwhere options of None \<Rightarrow> [] | Some w \<Rightarrow> w) of
        Inl e \<Rightarrow> (Inl e, c)
      | Inr wc \<Rightarrow>
          (let query0 = ''SELECT * FROM '' @ table @ '' '' @ clause wc;
               query1 = (case orderBy options of
                           None \<Rightarrow> query0
                         | Some ob \<Rightarrow> if ob \<noteq> [] then query0 @ '' ORDER BY '' @ ob else query0);
               query2 = (case limit options of
                           None \<Rightarrow> query1
                         | Some n \<Rightarrow> query1 @ '' LIMIT '' @ n);
               query3 = (case offset options of
                           None \<Rightarrow> query2
                         | Some n \<Rightarrow> query2 @ '' OFFSET '' @ n)
           in db_all D h query3 (params wc) c))"

definition find_records ::
  "('h, 's) driver \<Rightarrow> string \<Rightarrow> query_options \<Rightarrow> ('h, 's) client
     \<Rightarrow> (thrown + jsval list) \<times> ('h, 's) client" where
  "find_records D table options c =
     (case ensureConnected c of
        Inl e \<Rightarrow> (Inl e, c)
      | Inr h \<Rightarrow> try_catch ''Failed to find records: '' (find_body D h table options c))"

definition findOne_body ::
  "('h, 's) driver \<Rightarrow> 'h \<Rightarrow> string \<Rightarrow> query_options \<Rightarrow> ('h, 's) client
     \<Rightarrow> (thrown + jsval) \<times> ('h, 's) client" where
  "findOne_body D h table options c =
     (case buildWhereClause (case qwhere options of None \<Rightarrow> [] | Some w \<Rightarrow> w) of
        Inl e \<Rightarrow> (Inl e, c)
      | Inr wc \<Rightarrow>
          (let query0 = ''SELECT * FROM '' @ table @ '' '' @ clause wc;
               query1 = (case orderBy options of
                           None \<Rightarrow> query0
                         | Some ob \<Rightarrow> if ob \<noteq> [] then query0 @ '' ORDER BY '' @ ob else query0);
               query2 = query1 @ '' LIMIT 1''
           in case db_get D h query2 (params wc) c of
                (Inl e, c') \<Rightarrow> (Inl e, c')
              | (Inr result, c') \<Rightarrow> (Inr (if truthy result then result else JNull), c')))"

definition findOne ::
  "('h, 's) driver \<Rightarrow> string \<Rightarrow> query_options \<Rightarrow> ('h, 's) client
     \<Rightarrow> (thrown + jsval) \<times> ('h, 's) client" where
  "findOne D table options c =
     (case ensureConnected c of
        Inl e \<Rightarrow> (Inl e, c)
      | Inr h \<Rightarrow> try_catch ''Failed to find record: '' (findOne_body D h table options c))"

text \<open>Reading and assigning a property of a plain object: \<open>data.id\<close> and \<open>data.id = v\<close>.\<close>

definition get_prop :: "jsobject \<Rightarrow> string \<Rightarrow> jsval" where
  "get_prop obj k = (case map_of obj k of None \<Rightarrow> JUndefined | Some v \<Rightarrow> v)"

fun set_prop :: "jsobject \<Rightarrow> string \<Rightarrow> jsval \<Rightarrow> jsobject" where
  "set_prop [] k v = [(k, v)]"
| "set_prop (p # ps) k v = (if fst p = k then (k, v) # ps else p # set_prop ps k v)"

text \<open>
  \<open>create\<close>. The identifier that \<open>uuid.v4()\<close> returns at this call is the argument \<open>uuid\<close>.
  The caller's object \<open>data\<close> is assigned to inside the try block, so the object as the
  call leaves it is part of the outcome, next to the client.
\<close>

definition assign_id :: "jsobject \<Rightarrow> string \<Rightarrow> jsobject" where
  "assign_id data uuid =
     (if \<not> truthy (get_prop data ''id'') then set_prop data ''id'' (JStr uuid) else data)"

definition insert_query :: "string \<Rightarrow> string list \<Rightarrow> string" where
  "insert_query table keys =
     [CHR 0x0A] @ ''            INSERT INTO '' @ table @ '' ('' @ join '', '' keys @ '')''
     @ [CHR 0x0A] @ ''            VALUES ('' @ join '', '' (map (\<lambda>_. ''?'') keys) @ '')''
     @ [CHR 0x0A] @ ''        ''"

definition create_body ::
  "('h, 's) driver \<Rightarrow> 'h \<Rightarrow> string \<Rightarrow> jsobject \<Rightarrow> string \<Rightarrow> ('h, 's) client
     \<Rightarrow> (thrown + jsval) \<times> jsobject \<times> ('h, 's) client" where
  "create_body D h table data uuid c =
     (let data1 = assign_id data uuid;
          keys = map fst data1;
          vals = map snd data1;
          query = insert_query table keys
      in case db_run D h query vals c of
           (Inl e, c1) \<Rightarrow> (Inl e, data1, c1)
         | (Inr r, c1) \<Rightarrow>
             (case findOne D table (no_options\<lparr>qwhere := Some [(''id'', get_prop data1 ''id'')]\<rparr>) c1 of
                (Inl e, c2) \<Rightarrow> (Inl e, data1, c2)
              | (Inr created, c2) \<Rightarrow>
                  if \<not> truthy created
                  then (Inl (DatabaseError ''Failed to create record: Record not found after insertion''),
                        data1, c2)
                  else (Inr (get_prop data1 ''id''), data1, c2)))"

definition create ::
  "('h, 's) driver \<Rightarrow> string \<Rightarrow> jsobject \<Rightarrow> string \<Rightarrow> ('h, 's) client
     \<Rightarrow> (thrown + jsval) \<times> jsobject \<times> ('h, 's) client" where
  "create D table data uuid c =
     (case ensureConnected c of
        Inl e \<Rightarrow> (Inl e, data, c)
      | Inr h \<Rightarrow> try_catch ''Failed to create record: '' (create_body D h table data uuid c))"

text \<open>\<open>result.changes || 0\<close>.\<close>

definition changes_or_zero :: "run_result \<Rightarrow> nat" where
  "changes_or_zero r = (case changes r of None \<Rightarrow> 0 | Some n \<Rightarrow> if n \<noteq> 0 then n else 0)"

definition update_query :: "string \<Rightarrow> jsobject \<Rightarrow> string \<Rightarrow> string" where
  "update_query table data cl =
     (let setClause = join '', '' (map (\<lambda>key. key @ '' = ?'') (map fst data))
      in ''UPDATE '' @ table @ '' SET '' @ setClause @ '' '' @ cl)"

definition update_body ::
  "('h, 's) driver \<Rightarrow> 'h \<Rightarrow> string \<Rightarrow> jsobject \<Rightarrow> jsobject \<Rightarrow> ('h, 's) client
     \<Rightarrow> (thrown + nat) \<times> ('h, 's) client" where
  "update_body D h table whr data c =
     (case buildWhereClause whr of
        Inl e \<Rightarrow> (Inl e, c)
      | Inr wc \<Rightarrow>
          (let query = update_query table data (clause wc);
               allParams = map snd data @ params wc
           in case db_run D h query allParams c of
                (Inl e, c') \<Rightarrow> (Inl e, c')
              | (Inr result, c') \<Rightarrow> (Inr (changes_or_zero result), c')))"

definition update ::
  "('h, 's) driver \<Rightarrow> string \<Rightarrow> jsobject \<Rightarrow> jsobject \<Rightarrow> ('h, 's) client
     \<Rightarrow> (thrown + nat) \<times> ('h, 's) client" where
  "update D table whr data c =
     (case ensureConnected c of
        Inl e \<Rightarrow> (Inl e, c)
      | Inr h \<Rightarrow> try_catch ''Failed to update records: '' (update_body D h table whr data c))"

definition delete_body ::
  "('h, 's) driver \<Rightarrow> 'h \<Rightarrow> string \<Rightarrow> jsobject \<Rightarrow> ('h, 's) client
     \<Rightarrow> (thrown + nat) \<times> ('h, 's) client" where
  "delete_body D h table whr c =
     (case buildWhereClause whr of
        Inl e \<Rightarrow> (Inl e, c)
      | Inr wc \<Rightarrow>
          if clause wc = [] then (Inl (DatabaseError ''Delete operation requires where clause''), c)
          else
            (let query = ''DELETE FROM '' @ table @ '' '' @ clause wc
             in case db_run D h query (params wc) c of
                  (Inl e, c') \<Rightarrow> (Inl e, c')
                | (Inr result, c') \<Rightarrow> (Inr (changes_or_zero result), c')))"

definition delete ::
  "('h, 's) driver \<Rightarrow> string \<Rightarrow> jsobject \<Rightarrow> ('h, 's) client
     \<Rightarrow> (thrown + nat) \<times> ('h, 's) client" where
  "delete D table whr c =
     (case ensureConnected c of
        Inl e \<Rightarrow> (Inl e, c)
      | Inr h \<Rightarrow> try_catch ''Failed to delete records: '' (delete_body D h table whr c))"

text \<open>\<open>close\<close> has no try block: what the driver's \<open>close\<close> throws propagates as it is, and
  \<open>this.db\<close> stays set.\<close>

definition close :: "('h, 's) driver \<Rightarrow> ('h, 's) client \<Rightarrow> (thrown + unit) \<times> ('h, 's) client" where
  "close D c =
     (case db c of
        None \<Rightarrow> (Inr (), c)
      | Some h \<Rightarrow>
          (case drv_close D h (storage c) of
             (Inl e, s') \<Rightarrow> (Inl e, c\<lparr>storage := s'\<rparr>)
           | (Inr u, s') \<Rightarrow> (Inr (), c\<lparr>db := None, storage := s'\<rparr>)))"


text \<open>The error of \<open>ensureConnected\<close>.\<close>

definition not_connected :: thrown where
  "not_connected = DatabaseError ''Database not connected. Call connect() first.''"

section \<open>Sequences of calls on one instance\<close>

datatype call =
    Connect
  | CreateTable string "(string \<times> string) list"
  | Find string query_options
  | FindOne string query_options
  | Create string jsobject string
  | Update string jsobject jsobject
  | Delete string jsobject
  | Close

text \<open>
  What a call threw (\<open>None\<close> when it returned), and with it the client after the call.
\<close>

fun rejection :: "thrown + 'a \<Rightarrow> thrown option" where
  "rejection (Inr v) = None"
| "rejection (Inl e) = Some e"

fun perform ::
  "('h, 's) driver \<Rightarrow> call \<Rightarrow> ('h, 's) client \<Rightarrow> thrown option \<times> ('h, 's) client" where
  "perform D Connect c = (case connect D c of (r, c') \<Rightarrow> (rejection r, c'))"
| "perform D (CreateTable t cols) c = (case createTable D t cols c of (r, c') \<Rightarrow> (rejection r, c'))"
| "perform D (Find t opts) c = (case find_records D t opts c of (r, c') \<Rightarrow> (rejection r, c'))"
| "perform D (FindOne t opts) c = (case findOne D t opts c of (r, c') \<Rightarrow> (rejection r, c'))"
| "perform D (Create t data uuid) c = (case create D t data uuid c of (r, d, c') \<Rightarrow> (rejection r, c'))"
| "perform D (Update t whr data) c = (case update D t whr data c of (r, c') \<Rightarrow> (rejection r, c'))"
| "perform D (Delete t whr) c = (case delete D t whr c of (r, c') \<Rightarrow> (rejection r, c'))"
| "perform D Close c = (case close D c of (r, c') \<Rightarrow> (rejection r, c'))"

fun perform_all :: "('h, 's) driver \<Rightarrow> call list \<Rightarrow> ('h, 's) client \<Rightarrow> ('h, 's) client" where
  "perform_all D [] c = c"
| "perform_all D (x # xs) c = perform_all D xs (snd (perform D x c))"

fun data_operation :: "call \<Rightarrow> bool" where
  "data_operation Connect = False"
| "data_operation Close = False"
| "data_operation x = True"

section \<open>A driver to run the client on\<close>

text \<open>
  A driver that opens every file, counts in its state the statements \<open>run\<close> executes,
  reports \<open>n\<close> changed rows for each of them and answers every query with the row \<open>row\<close>.
\<close>

definition fixed_driver :: "nat \<Rightarrow> jsval \<Rightarrow> (nat, nat) driver" where
  "fixed_driver n row =
     \<lparr>drv_open = (\<lambda>file s. (Inr 0, s)),
      drv_run = (\<lambda>h sql ps s. (Inr \<lparr>changes = Some n\<rparr>, Suc s)),
      drv_get = (\<lambda>h sql ps s. (Inr row, s)),
      drv_all = (\<lambda>h sql ps s. (Inr [row], s)),
      drv_close = (\<lambda>h s. (Inr (), s))\<rparr>"

text \<open>A client connected through this driver, before any statement.\<close>

definition connected_client :: "(nat, nat) client" where
  "connected_client = \<lparr>db = Some 0, database = ''test.sqlite'', storage = 0, issued = []\<rparr>"

section \<open>Facts about buildWhereClause\<close>

declare where_entry.simps [simp del]
declare operator_case.simps [simp del]

lemma operator_case_known:
  "op_symbol (fst e) = Some sy \<Longrightarrow>
     operator_case key e (cs, ps) = Inr (cs @ [key @ '' '' @ sy @ '' ?''], ps @ [snd e])"
  by (cases e) (auto simp: operator_case.simps op_symbol_def split: if_splits)

lemma operator_case_unknown:
  "op_symbol (fst e) = None \<Longrightarrow>
     operator_case key e (cs, ps) = Inl (DatabaseError (''Unknown operator: '' @ fst e))"
  by (cases e) (auto simp: operator_case.simps op_symbol_def split: if_splits)

lemma forEach_operator_case:
  "forEach (operator_case key) ops (cs, ps) =
     (case List.find unknown_operator ops of
        None \<Rightarrow> Inr (cs @ map (operator_fragment key) ops, ps @ map snd ops)
      | Some e \<Rightarrow> Inl (DatabaseError (''Unknown operator: '' @ fst e)))"
proof (induction ops arbitrary: cs ps)
  case Nil
  show ?case by simp
next
  case (Cons e ops)
  show ?case
  proof (cases "op_symbol (fst e)")
    case None
    then show ?thesis
      by (simp add: operator_case_unknown unknown_operator_def)
  next
    case (Some sy)
    then show ?thesis
      by (simp add: operator_case_known unknown_operator_def Cons.IH operator_fragment_def
          split: option.splits)
  qed
qed

lemma scalar_iff: "scalar v \<longleftrightarrow> \<not> object_like v"
  by (cases v) (simp_all add: object_like_def)

lemma isArray_object_like: "isArray v \<Longrightarrow> object_like v"
  by (cases v) (simp_all add: object_like_def)

lemma where_entry_object:
  "object_like v \<Longrightarrow>
     where_entry (key, v) (cs, ps) = forEach (operator_case key) (Object_entries v) (cs, ps)"
  by (simp add: where_entry.simps object_like_def)

lemma where_entry_scalar:
  "\<not> object_like v \<Longrightarrow> where_entry (key, v) (cs, ps) = Inr (cs @ [key @ '' = ?''], ps @ [v])"
  using isArray_object_like [of v] by (auto simp: where_entry.simps object_like_def)

lemma where_entry_Inr:
  assumes "where_entry e (cs, ps) = Inr (cs', ps')"
  shows "cs' = cs @ entry_fragments e \<and> ps' = ps @ entry_params e"
proof (cases "object_like (snd e)")
  case True
  with assms show ?thesis
    by (cases e) (auto simp: where_entry_object forEach_operator_case entry_fragments_def
        entry_params_def split: option.splits)
next
  case False
  with assms show ?thesis
    by (cases e) (auto simp: where_entry_scalar entry_fragments_def entry_params_def)
qed

lemma forEach_where_entry_Inr:
  "forEach where_entry whr (cs, ps) = Inr (cs', ps') \<Longrightarrow>
     cs' = cs @ concat (map entry_fragments whr) \<and> ps' = ps @ concat (map entry_params whr)"
proof (induction whr arbitrary: cs ps)
  case Nil
  then show ?case by simp
next
  case (Cons e whr)
  from Cons.prems obtain cs1 ps1 where
    step: "where_entry e (cs, ps) = Inr (cs1, ps1)" and
    rest: "forEach where_entry whr (cs1, ps1) = Inr (cs', ps')"
    by (auto split: sum.splits)
  from where_entry_Inr [OF step] Cons.IH [OF rest] show ?case by simp
qed

lemma buildWhereClause_Inr:
  assumes "buildWhereClause whr = Inr wc"
  shows "clause wc = (if concat (map entry_fragments whr) = [] then []
                      else ''WHERE '' @ join '' AND '' (concat (map entry_fragments whr)))"
    and "params wc = concat (map entry_params whr)"
proof -
  from assms obtain cs ps where
    run: "forEach where_entry whr ([], []) = Inr (cs, ps)" and
    wc: "wc = \<lparr>clause = (if length cs > 0 then ''WHERE '' @ join '' AND '' cs else []),
               params = ps\<rparr>"
    by (auto simp: buildWhereClause_def split: sum.splits)
  from forEach_where_entry_Inr [OF run]
  have "cs = concat (map entry_fragments whr)" "ps = concat (map entry_params whr)"
    by simp_all
  with wc show "clause wc = (if concat (map entry_fragments whr) = [] then []
                      else ''WHERE '' @ join '' AND '' (concat (map entry_fragments whr)))"
    and "params wc = concat (map entry_params whr)" by simp_all
qed

lemma forEach_scalars:
  "\<forall>e \<in> set whr. \<not> object_like (snd e) \<Longrightarrow>
     forEach where_entry whr (cs, ps) =
       Inr (cs @ map (\<lambda>e. fst e @ '' = ?'') whr, ps @ map snd whr)"
proof (induction whr arbitrary: cs ps)
  case Nil
  show ?case by simp
next
  case (Cons e whr)
  then show ?case by (cases e) (simp add: where_entry_scalar)
qed

section \<open>Conditions of scalars\<close>

text \<open>
  Claim C5. When every value of the condition is a scalar, \<open>buildWhereClause\<close> returns one
  fragment \<open>col = ?\<close> for each key, in the order of the keys, joined with \<open>AND\<close> after the
  keyword \<open>WHERE\<close>, and the parameters are the values in the order of the keys. For the
  empty condition the clause is the empty string, without the keyword, and there are no
  parameters.
\<close>

theorem scalar_conditions_compile:
  "(\<forall>e \<in> set whr. scalar (snd e)) \<longrightarrow>
     buildWhereClause whr =
       Inr \<lparr>clause = (if whr = [] then []
                       else ''WHERE '' @ join '' AND '' (map (\<lambda>e. fst e @ '' = ?'') whr)),
            params = map snd whr\<rparr>"
  by (simp add: buildWhereClause_def forEach_scalars scalar_iff)

theorem scalar_conditions_compile_witness:
  "list_all (\<lambda>e. scalar (snd e)) [(''name'', JStr ''A''), (''age'', JNum 30), (''note'', JNull)]
   \<and> buildWhereClause [(''name'', JStr ''A''), (''age'', JNum 30), (''note'', JNull)] =
       Inr \<lparr>clause = ''WHERE name = ? AND age = ? AND note = ?'',
            params = [JStr ''A'', JNum 30, JNull]\<rparr>
   \<and> buildWhereClause [] = Inr \<lparr>clause = [], params = []\<rparr>"
  using scalar_conditions_compile [of "[(''name'', JStr ''A''), (''age'', JNum 30), (''note'', JNull)]"]
    scalar_conditions_compile [of "[]"]
  by simp

section \<open>Conditions with an array\<close>

lemma decimal_0: "decimal 0 = ''0''"
  by (simp add: decimal.simps [of 0] digit_char_def)

lemma Object_entries_array_Cons:
  "\<exists>rest. Object_entries (JArr (x # xs)) = (''0'', x) # rest"
  by (simp add: upt_conv_Cons decimal_0 del: upt_Suc)

lemma where_entry_array_Cons:
  "where_entry (k, JArr (x # xs)) (cs, ps) = Inl (DatabaseError ''Unknown operator: 0'')"
proof -
  obtain rest where es: "Object_entries (JArr (x # xs)) = (''0'', x) # rest"
    using Object_entries_array_Cons by blast
  have "where_entry (k, JArr (x # xs)) (cs, ps) =
          forEach (operator_case k) ((''0'', x) # rest) (cs, ps)"
    using where_entry_object [of "JArr (x # xs)" k cs ps] es
    by (simp add: object_like_def del: Object_entries.simps)
  also have "\<dots> = Inl (DatabaseError ''Unknown operator: 0'')"
    by (simp add: operator_case_unknown op_symbol_def)
  finally show ?thesis .
qed

lemma where_entry_array_Nil: "where_entry (k, JArr []) (cs, ps) = Inr (cs, ps)"
  by (simp add: where_entry_object object_like_def)

text \<open>
  Claim C1 says that an array value compiles to \<open>col IN (?, ..., ?)\<close> with the elements as
  parameters, and the empty array to \<open>col IN ()\<close>. The code tests
  \<open>typeof value === 'object'\<close> before \<open>Array.isArray(value)\<close>, and an array is an object:
  the array is read as an operator object whose operators are its indices. A condition
  whose only entry is a non-empty array throws \<open>Unknown operator: 0\<close>; one whose only entry
  is the empty array compiles to the empty clause, with no fragment at all. The branch
  that builds the \<open>IN\<close> fragment is never taken.
\<close>

theorem array_condition_read_as_operators:
  "buildWhereClause [(k, JArr (x # xs))] = Inl (DatabaseError ''Unknown operator: 0'')
   \<and> buildWhereClause [(k, JArr [])] = Inr \<lparr>clause = [], params = []\<rparr>
   \<and> buildWhereClause [(''id'', JArr [JNum 1, JNum 2])] \<noteq>
       Inr \<lparr>clause = ''WHERE id IN (?, ?)'', params = [JNum 1, JNum 2]\<rparr>"
  by (simp add: buildWhereClause_def where_entry_array_Cons where_entry_array_Nil)

section \<open>Placeholders and parameters\<close>

lemma qmarks_Nil [simp]: "qmarks [] = 0"
  by (simp add: qmarks_def)

lemma qmarks_Cons [simp]: "qmarks (c # s) = (if c = CHR ''?'' then 1 else 0) + qmarks s"
  by (simp add: qmarks_def)

lemma qmarks_append [simp]: "qmarks (xs @ ys) = qmarks xs + qmarks ys"
  by (simp add: qmarks_def)

lemma qmarks_join:
  "qmarks sep = 0 \<Longrightarrow> qmarks (join sep xs) = sum_list (map qmarks xs)"
  by (induction sep xs rule: join.induct) (simp_all add: qmarks_def)

lemma op_symbol_cases:
  "op_symbol op = Some sy \<Longrightarrow> sy \<in> set [''>'', ''<'', ''>='', ''<='', ''!='']"
  by (auto simp: op_symbol_def split: if_splits)

lemma operator_fragment_known:
  "op_symbol (fst e) \<noteq> None \<Longrightarrow>
     fragment_of key (operator_fragment key e) \<and> qmarks (operator_fragment key e) = qmarks key + 1"
proof -
  assume "op_symbol (fst e) \<noteq> None"
  then obtain sy where s: "op_symbol (fst e) = Some sy" by auto
  from op_symbol_cases [OF s]
  have "sy = ''>'' \<or> sy = ''<'' \<or> sy = ''>='' \<or> sy = ''<='' \<or> sy = ''!=''" by simp
  with s show ?thesis
    by (auto simp: operator_fragment_def fragment_of_def qmarks_def)
qed

lemma find_unknown_None: "List.find unknown_operator ops = None \<longleftrightarrow> (\<forall>e \<in> set ops. op_symbol (fst e) \<noteq> None)"
  by (auto simp: find_None_iff unknown_operator_def)

lemma where_entry_Inr_known:
  "where_entry e (cs, ps) = Inr r \<Longrightarrow> entry_known e"
  by (cases e) (auto simp: entry_known_def where_entry_object forEach_operator_case split: option.splits)

lemma where_entry_Inl:
  "where_entry e (cs, ps) = Inl x \<Longrightarrow> \<exists>op. op_symbol op = None \<and> x = DatabaseError (''Unknown operator: '' @ op)"
proof (cases "object_like (snd e)")
  case True
  assume "where_entry e (cs, ps) = Inl x"
  with True obtain u where "List.find unknown_operator (Object_entries (snd e)) = Some u"
    "x = DatabaseError (''Unknown operator: '' @ fst u)"
    by (cases e) (auto simp: where_entry_object forEach_operator_case split: option.splits)
  moreover from this have "unknown_operator u" by (auto simp: find_Some_iff)
  ultimately show ?thesis by (auto simp: unknown_operator_def)
next
  case False
  assume "where_entry e (cs, ps) = Inl x"
  with False show ?thesis by (cases e) (simp add: where_entry_scalar)
qed

lemma forEach_where_entry_known:
  "forEach where_entry whr (cs, ps) = Inr r \<Longrightarrow> \<forall>e \<in> set whr. entry_known e"
proof (induction whr arbitrary: cs ps)
  case Nil
  show ?case by simp
next
  case (Cons e whr)
  from Cons.prems obtain cs1 ps1 where
    step: "where_entry e (cs, ps) = Inr (cs1, ps1)" and
    rest: "forEach where_entry whr (cs1, ps1) = Inr r"
    by (auto split: sum.splits)
  from where_entry_Inr_known [OF step] Cons.IH [OF rest] show ?case by simp
qed

lemma forEach_where_entry_Inl:
  "forEach where_entry whr (cs, ps) = Inl x \<Longrightarrow>
     \<exists>op. op_symbol op = None \<and> x = DatabaseError (''Unknown operator: '' @ op)"
proof (induction whr arbitrary: cs ps)
  case Nil
  then show ?case by simp
next
  case (Cons e whr)
  show ?case
  proof (cases "where_entry e (cs, ps)")
    case (Inl y)
    with Cons.prems have "y = x" by simp
    with Inl where_entry_Inl show ?thesis by blast
  next
    case (Inr acc)
    with Cons.prems have "forEach where_entry whr acc = Inl x" by simp
    with Cons.IH [of "fst acc" "snd acc"] show ?thesis by simp
  qed
qed

lemma buildWhereClause_known:
  "buildWhereClause whr = Inr wc \<Longrightarrow> \<forall>e \<in> set whr. entry_known e"
  by (auto simp: buildWhereClause_def split: sum.splits dest: forEach_where_entry_known)

lemma buildWhereClause_Inl:
  "buildWhereClause whr = Inl x \<Longrightarrow>
     \<exists>op. op_symbol op = None \<and> x = DatabaseError (''Unknown operator: '' @ op)"
  by (auto simp: buildWhereClause_def split: sum.splits dest: forEach_where_entry_Inl)

lemma entry_fragments_known:
  assumes "entry_known e"
  shows "\<forall>f \<in> set (entry_fragments e). fragment_of (fst e) f \<and> qmarks f = qmarks (fst e) + 1"
proof (cases "object_like (snd e)")
  case True
  with assms have "\<forall>u \<in> set (Object_entries (snd e)). op_symbol (fst u) \<noteq> None"
    by (simp add: entry_known_def find_unknown_None)
  with True show ?thesis
    by (auto simp: entry_fragments_def operator_fragment_known)
next
  case False
  then show ?thesis
    by (simp add: entry_fragments_def fragment_of_def qmarks_def)
qed

lemma entry_lengths: "length (entry_fragments e) = length (entry_params e)"
  by (simp add: entry_fragments_def entry_params_def)

lemma sum_list_const: "\<forall>x \<in> set xs. f x = (c::nat) \<Longrightarrow> sum_list (map f xs) = length xs * c"
  by (induction xs) simp_all

lemma qmarks_entry:
  "entry_known e \<Longrightarrow>
     sum_list (map qmarks (entry_fragments e)) =
       length (entry_params e) + length (entry_fragments e) * qmarks (fst e)"
  using entry_fragments_known [of e] sum_list_const [of "entry_fragments e" qmarks "qmarks (fst e) + 1"]
  by (simp add: entry_lengths)

lemma qmarks_entries:
  "\<forall>e \<in> set whr. entry_known e \<Longrightarrow>
     sum_list (map qmarks (concat (map entry_fragments whr))) =
       length (concat (map entry_params whr))
       + sum_list (map (\<lambda>e. length (entry_fragments e) * qmarks (fst e)) whr)"
  by (induction whr) (simp_all add: qmarks_entry)

lemma qmarks_clause:
  assumes "buildWhereClause whr = Inr wc"
  shows "qmarks (clause wc) =
           length (params wc) + sum_list (map (\<lambda>e. length (entry_fragments e) * qmarks (fst e)) whr)"
proof -
  have known: "\<forall>e \<in> set whr. entry_known e"
    using assms by (rule buildWhereClause_known)
  have "qmarks (clause wc) = sum_list (map qmarks (concat (map entry_fragments whr)))"
  proof (cases "concat (map entry_fragments whr) = []")
    case True
    with buildWhereClause_Inr(1) [OF assms] have "clause wc = []" by simp
    with True show ?thesis by (simp add: qmarks_def)
  next
    case False
    with buildWhereClause_Inr(1) [OF assms]
    have "clause wc = ''WHERE '' @ join '' AND '' (concat (map entry_fragments whr))" by simp
    then show ?thesis by (simp add: qmarks_join)
  qed
  also have "\<dots> = length (concat (map entry_params whr))
       + sum_list (map (\<lambda>e. length (entry_fragments e) * qmarks (fst e)) whr)"
    using known by (rule qmarks_entries)
  finally show ?thesis
    using buildWhereClause_Inr(2) [OF assms] by simp
qed

text \<open>
  Claim C6 says that the clause text has as many \<open>?\<close> as there are parameters. Column
  names are copied into the text as they are: the condition \<open>{'a?': 1}\<close> compiles to
  \<open>WHERE a? = ?\<close>, two question marks, with one parameter.
\<close>

theorem question_mark_in_column_counterexample:
  "buildWhereClause [(''a?'', JNum 1)] = Inr \<lparr>clause = ''WHERE a? = ?'', params = [JNum 1]\<rparr>
   \<and> qmarks (clause \<lparr>clause = ''WHERE a? = ?'', params = [JNum 1]\<rparr>) = 2
   \<and> length (params \<lparr>clause = ''WHERE a? = ?'', params = [JNum 1]\<rparr>) = 1"
  by (simp add: buildWhereClause_def where_entry.simps qmarks_def)

text \<open>
  Claim C6, amended. Whenever \<open>buildWhereClause\<close> returns, the clause is the fragments of
  the entries, entry after entry in the order of the condition, and the parameters are the
  values of the entries in the same order. Every fragment is a column name, a comparison
  symbol and one placeholder, and every entry contributes as many parameters as fragments:
  the n-th parameter belongs to the n-th fragment. The question marks of the clause text
  are these placeholders, one for each parameter, and the question marks that the column
  names themselves contain; when no column name contains one, the text has exactly as
  many question marks as there are parameters.
\<close>

theorem placeholders_match_params:
  "buildWhereClause whr = Inr wc \<longrightarrow>
     clause wc = (if concat (map entry_fragments whr) = [] then []
                  else ''WHERE '' @ join '' AND '' (concat (map entry_fragments whr)))
     \<and> params wc = concat (map entry_params whr)
     \<and> (\<forall>e \<in> set whr. length (entry_fragments e) = length (entry_params e)
            \<and> (\<forall>f \<in> set (entry_fragments e). fragment_of (fst e) f))
     \<and> qmarks (clause wc) =
         length (params wc) + sum_list (map (\<lambda>e. length (entry_fragments e) * qmarks (fst e)) whr)
     \<and> ((\<forall>e \<in> set whr. qmarks (fst e) = 0) \<longrightarrow> qmarks (clause wc) = length (params wc))"
proof
  assume ok: "buildWhereClause whr = Inr wc"
  have known: "\<forall>e \<in> set whr. entry_known e"
    using ok by (rule buildWhereClause_known)
  have count: "qmarks (clause wc) =
      length (params wc) + sum_list (map (\<lambda>e. length (entry_fragments e) * qmarks (fst e)) whr)"
    using ok by (rule qmarks_clause)
  have zero: "(\<forall>e \<in> set whr. qmarks (fst e) = 0) \<longrightarrow> qmarks (clause wc) = length (params wc)"
  proof
    assume "\<forall>e \<in> set whr. qmarks (fst e) = 0"
    then have "sum_list (map (\<lambda>e. length (entry_fragments e) * qmarks (fst e)) whr) = 0"
      by simp
    with count show "qmarks (clause wc) = length (params wc)" by simp
  qed
  from buildWhereClause_Inr [OF ok] known count zero
  show "clause wc = (if concat (map entry_fragments whr) = [] then []
                  else ''WHERE '' @ join '' AND '' (concat (map entry_fragments whr)))
     \<and> params wc = concat (map entry_params whr)
     \<and> (\<forall>e \<in> set whr. length (entry_fragments e) = length (entry_params e)
            \<and> (\<forall>f \<in> set (entry_fragments e). fragment_of (fst e) f))
     \<and> qmarks (clause wc) =
         length (params wc) + sum_list (map (\<lambda>e. length (entry_fragments e) * qmarks (fst e)) whr)
     \<and> ((\<forall>e \<in> set whr. qmarks (fst e) = 0) \<longrightarrow> qmarks (clause wc) = length (params wc))"
    by (simp add: entry_lengths entry_fragments_known)
qed

theorem placeholders_match_params_witness:
  "buildWhereClause [(''a'', JNum 1), (''b'', JObj [(''gt'', JNum 3), (''ne'', JNull)]), (''c'', JArr [])] =
     Inr \<lparr>clause = ''WHERE a = ? AND b > ? AND b != ?'', params = [JNum 1, JNum 3, JNull]\<rparr>
   \<and> concat (map entry_fragments
        [(''a'', JNum 1), (''b'', JObj [(''gt'', JNum 3), (''ne'', JNull)]), (''c'', JArr [])]) =
       [''a = ?'', ''b > ?'', ''b != ?'']
   \<and> concat (map entry_params
        [(''a'', JNum 1), (''b'', JObj [(''gt'', JNum 3), (''ne'', JNull)]), (''c'', JArr [])]) =
       [JNum 1, JNum 3, JNull]
   \<and> qmarks ''WHERE a = ? AND b > ? AND b != ?'' = length [JNum 1, JNum 3, JNull]"
  using placeholders_match_params
    [of "[(''a'', JNum 1), (''b'', JObj [(''gt'', JNum 3), (''ne'', JNull)]), (''c'', JArr [])]"
        "\<lparr>clause = ''WHERE a = ? AND b > ? AND b != ?'', params = [JNum 1, JNum 3, JNull]\<rparr>"]
  by (simp add: buildWhereClause_def where_entry.simps operator_case.simps entry_fragments_def
      entry_params_def object_like_def operator_fragment_def op_symbol_def)

section \<open>The clause text does not depend on the values\<close>

lemma same_shape_value_object: "same_shape_value v w \<Longrightarrow> object_like v = object_like w"
  by (cases v; cases w; simp add: same_shape_value_def object_like_def)

lemma same_shape_value_keys:
  "same_shape_value v w \<Longrightarrow> object_like v \<Longrightarrow>
     map fst (Object_entries v) = map fst (Object_entries w)"
  by (cases v; cases w; simp add: same_shape_value_def object_like_def)

lemma same_keys_find:
  "map fst es = map fst fs \<Longrightarrow>
     map_option fst (List.find unknown_operator es) = map_option fst (List.find unknown_operator fs)"
proof (induction es arbitrary: fs)
  case Nil
  then show ?case by simp
next
  case (Cons e es)
  then obtain f fs' where fs: "fs = f # fs'" "fst e = fst f" "map fst es = map fst fs'"
    by (cases fs) auto
  with Cons.IH [of fs'] show ?case by (simp add: unknown_operator_def)
qed

lemma same_keys_fragments:
  "map fst es = map fst fs \<Longrightarrow>
     map (operator_fragment key) es = map (operator_fragment key) fs"
proof (induction es arbitrary: fs)
  case Nil
  then show ?case by simp
next
  case (Cons e es)
  then obtain f fs' where fs: "fs = f # fs'" "fst e = fst f" "map fst es = map fst fs'"
    by (cases fs) auto
  with Cons.IH [of fs'] show ?case by (simp add: operator_fragment_def)
qed

lemma where_entry_same_shape:
  assumes "same_shape_value v w"
  shows "text_part (where_entry (k, v) (cs, ps1)) = text_part (where_entry (k, w) (cs, ps2))"
proof (cases "object_like v")
  case True
  with assms have w: "object_like w" and keys: "map fst (Object_entries v) = map fst (Object_entries w)"
    by (simp_all add: same_shape_value_object same_shape_value_keys)
  from same_keys_find [OF keys] same_keys_fragments [OF keys, of k] True w
  show ?thesis
    by (cases "List.find unknown_operator (Object_entries v)";
        cases "List.find unknown_operator (Object_entries w)")
      (auto simp: text_part_def where_entry_object forEach_operator_case)
next
  case False
  with assms have "\<not> object_like w" by (simp add: same_shape_value_object)
  with False show ?thesis by (simp add: text_part_def where_entry_scalar)
qed

lemma forEach_same_shape:
  "list_all2 (\<lambda>a b. fst a = fst b \<and> same_shape_value (snd a) (snd b)) w1 w2 \<Longrightarrow>
     text_part (forEach where_entry w1 (cs, ps1)) = text_part (forEach where_entry w2 (cs, ps2))"
proof (induction w1 w2 arbitrary: cs ps1 ps2 rule: list_all2_induct)
  case Nil
  show ?case by (simp add: text_part_def)
next
  case (Cons a w1 b w2)
  obtain k v w where ab: "a = (k, v)" "b = (k, w)" and shape: "same_shape_value v w"
    using Cons.hyps(1) by (cases a; cases b) auto
  note step = where_entry_same_shape [OF shape, of k cs ps1 ps2]
  show ?case
  proof (cases "where_entry (k, v) (cs, ps1)")
    case (Inl e)
    with step have "where_entry (k, w) (cs, ps2) = Inl e"
      by (auto simp: text_part_def split: sum.splits)
    with Inl ab show ?thesis by (simp add: text_part_def)
  next
    case (Inr acc)
    with step obtain ps2' where "where_entry (k, w) (cs, ps2) = Inr (fst acc, ps2')"
      by (auto simp: text_part_def split: sum.splits)
    with Inr ab Cons.IH [of "fst acc" "snd acc" ps2'] show ?thesis by simp
  qed
qed

text \<open>
  Claim C9. Two conditions with the same keys, the same operator keys and arrays of the
  same lengths, which differ in their values only, compile to the same clause text (or
  throw the same exception): no value reaches the text.
\<close>

theorem clause_text_independent_of_values:
  "same_shape w1 w2 \<longrightarrow> clause_text (buildWhereClause w1) = clause_text (buildWhereClause w2)"
proof
  assume "same_shape w1 w2"
  then have "text_part (forEach where_entry w1 ([], [])) = text_part (forEach where_entry w2 ([], []))"
    unfolding same_shape_def by (rule forEach_same_shape)
  then show "clause_text (buildWhereClause w1) = clause_text (buildWhereClause w2)"
    by (auto simp: clause_text_def buildWhereClause_def text_part_def split: sum.splits)
qed

theorem clause_text_independent_of_values_witness:
  "same_shape [(''a'', JNum 1), (''b'', JObj [(''gt'', JNum 3)]), (''c'', JArr [])]
              [(''a'', JStr ''x''), (''b'', JObj [(''gt'', JNull)]), (''c'', JArr [])]
   \<and> clause_text (buildWhereClause [(''a'', JNum 1), (''b'', JObj [(''gt'', JNum 3)]), (''c'', JArr [])]) =
       Inr ''WHERE a = ? AND b > ?''
   \<and> clause_text (buildWhereClause [(''a'', JStr ''x''), (''b'', JObj [(''gt'', JNull)]), (''c'', JArr [])]) =
       Inr ''WHERE a = ? AND b > ?''"
  using clause_text_independent_of_values
    [of "[(''a'', JNum 1), (''b'', JObj [(''gt'', JNum 3)]), (''c'', JArr [])]"
        "[(''a'', JStr ''x''), (''b'', JObj [(''gt'', JNull)]), (''c'', JArr [])]"]
  by (simp add: same_shape_def same_shape_value_def clause_text_def buildWhereClause_def
      where_entry.simps operator_case.simps)

section \<open>Operations on a condition that does not compile\<close>

lemma ensureConnected_Some [simp]: "db c = Some h \<Longrightarrow> ensureConnected c = Inr h"
  by (simp add: ensureConnected_def)

lemma ensureConnected_None [simp]:
  "db c = None \<Longrightarrow> ensureConnected c = Inl (DatabaseError ''Database not connected. Call connect() first.'')"
  by (simp add: ensureConnected_def)

lemma find_records_compile_error:
  "db c = Some h \<Longrightarrow> qwhere opts = Some whr \<Longrightarrow> buildWhereClause whr = Inl x \<Longrightarrow>
     find_records D t opts c = (Inl (DatabaseError (''Failed to find records: '' @ error_text x)), c)"
  by (simp add: find_records_def find_body_def try_catch_def)

lemma findOne_compile_error:
  "db c = Some h \<Longrightarrow> qwhere opts = Some whr \<Longrightarrow> buildWhereClause whr = Inl x \<Longrightarrow>
     findOne D t opts c = (Inl (DatabaseError (''Failed to find record: '' @ error_text x)), c)"
  by (simp add: findOne_def findOne_body_def try_catch_def)

lemma update_compile_error:
  "db c = Some h \<Longrightarrow> buildWhereClause whr = Inl x \<Longrightarrow>
     update D t whr data c = (Inl (DatabaseError (''Failed to update records: '' @ error_text x)), c)"
  by (simp add: update_def update_body_def try_catch_def)

lemma delete_compile_error:
  "db c = Some h \<Longrightarrow> buildWhereClause whr = Inl x \<Longrightarrow>
     delete D t whr c = (Inl (DatabaseError (''Failed to delete records: '' @ error_text x)), c)"
  by (simp add: delete_def delete_body_def try_catch_def)

section \<open>delete without a condition\<close>

lemma try_catch_Inl [simp]:
  "try_catch p (Inl e, s) = (Inl (DatabaseError (p @ error_text e)), s)"
  by (simp add: try_catch_def)

lemma try_catch_Inr [simp]: "try_catch p (Inr v, s) = (Inr v, s)"
  by (simp add: try_catch_def)


lemma buildWhereClause_Nil: "buildWhereClause [] = Inr \<lparr>clause = [], params = []\<rparr>"
  by (simp add: buildWhereClause_def)

lemma delete_empty_clause:
  "db c = Some h \<Longrightarrow> buildWhereClause whr = Inr wc \<Longrightarrow> clause wc = [] \<Longrightarrow>
     delete D table whr c =
       (Inl (DatabaseError ''Failed to delete records: Delete operation requires where clause''), c)"
  by (simp add: delete_def delete_body_def)

text \<open>
  Claim C7. On a connected client, \<open>delete\<close> with a condition that compiles to the empty
  clause (the empty condition among them) rejects with the \<open>DatabaseError\<close>
  \<open>Delete operation requires where clause\<close> (under the prefix of \<open>delete\<close>) and leaves the
  client as it was: no statement is handed to the driver and the storage is unchanged.
\<close>

theorem delete_requires_where:
  "(db c = Some h \<and> buildWhereClause whr = Inr wc \<and> clause wc = [] \<longrightarrow>
      delete D table whr c =
        (Inl (DatabaseError ''Failed to delete records: Delete operation requires where clause''), c)
      \<and> storage (snd (delete D table whr c)) = storage c
      \<and> issued (snd (delete D table whr c)) = issued c)
   \<and> (db c = Some h \<longrightarrow>
      delete D table [] c =
        (Inl (DatabaseError ''Failed to delete records: Delete operation requires where clause''), c))"
  using delete_empty_clause [of c h whr wc D table]
    delete_empty_clause [of c h "[]" "\<lparr>clause = [], params = []\<rparr>" D table]
  by (simp add: buildWhereClause_Nil)

theorem delete_requires_where_witness:
  "db connected_client = Some 0
   \<and> buildWhereClause [(''age'', JObj [])] = Inr \<lparr>clause = [], params = []\<rparr>
   \<and> delete (fixed_driver 1 JNull) ''users'' [(''age'', JObj [])] connected_client =
       (Inl (DatabaseError ''Failed to delete records: Delete operation requires where clause''),
        connected_client)
   \<and> delete (fixed_driver 1 JNull) ''users'' [] connected_client =
       (Inl (DatabaseError ''Failed to delete records: Delete operation requires where clause''),
        connected_client)
   \<and> storage connected_client = 0 \<and> issued connected_client = []"
proof -
  have conn: "db connected_client = Some 0"
    by (simp add: connected_client_def)
  have comp: "buildWhereClause [(''age'', JObj [])] = Inr \<lparr>clause = [], params = []\<rparr>"
    by (simp add: buildWhereClause_def where_entry.simps)
  from delete_requires_where
    [of connected_client 0 "[(''age'', JObj [])]" "\<lparr>clause = [], params = []\<rparr>"
      "fixed_driver 1 JNull" "''users''"] conn comp
  show ?thesis by (simp add: connected_client_def)
qed

section \<open>The statement of update\<close>

lemma update_runs:
  assumes "db c = Some h" and "buildWhereClause whr = Inr wc"
    and "drv_run D h (update_query table data (clause wc)) (map snd data @ params wc) (storage c)
          = (Inr result, s')"
  shows "update D table whr data c =
     (Inr (changes_or_zero result),
      c\<lparr>storage := s',
        issued := issued c @ [DbRun (update_query table data (clause wc)) (map snd data @ params wc)]\<rparr>)"
  using assms by (simp add: update_def update_body_def db_run_def)

lemma update_query_text:
  "update_query table data cl =
     ''UPDATE '' @ table @ '' SET '' @ join '', '' (map (\<lambda>e. fst e @ '' = ?'') data) @ '' '' @ cl"
  by (simp add: update_query_def comp_def)

lemma changes_or_zero_Some: "changes result = Some n \<Longrightarrow> changes_or_zero result = n"
  by (simp add: changes_or_zero_def)

lemma changes_or_zero_None: "changes result = None \<Longrightarrow> changes_or_zero result = 0"
  by (simp add: changes_or_zero_def)

text \<open>
  Claim C8. On a connected client, with a condition that compiles, \<open>update\<close> hands the
  driver one statement: \<open>UPDATE table SET\<close>, the columns of \<open>data\<close> in their order each as
  \<open>col = ?\<close>, then the compiled clause; its parameters are the values of \<open>data\<close> in their
  order followed by the parameters of the clause. When the driver executes it, \<open>update\<close>
  returns the number of changed rows that the driver reports: zero when it reports zero
  (or nothing), which is a return and not an error.
\<close>

theorem update_statement_and_count:
  "db c = Some h \<and> buildWhereClause whr = Inr wc
   \<and> drv_run D h (update_query table data (clause wc)) (map snd data @ params wc) (storage c)
       = (Inr result, s') \<longrightarrow>
     update D table whr data c =
       (Inr (changes_or_zero result),
        c\<lparr>storage := s',
          issued := issued c @
            [DbRun (update_query table data (clause wc)) (map snd data @ params wc)]\<rparr>)
     \<and> update_query table data (clause wc) =
         ''UPDATE '' @ table @ '' SET '' @ join '', '' (map (\<lambda>e. fst e @ '' = ?'') data)
           @ '' '' @ clause wc
     \<and> (changes result = Some n \<longrightarrow> changes_or_zero result = n)
     \<and> (changes result = None \<longrightarrow> changes_or_zero result = 0)"
  using update_runs [of c h whr wc D table data result s'] update_query_text [of table data "clause wc"]
    changes_or_zero_Some [of result n] changes_or_zero_None [of result]
  by simp

theorem update_statement_and_count_witness:
  "db connected_client = Some 0
   \<and> buildWhereClause [(''id'', JStr ''non-existent'')] =
       Inr \<lparr>clause = ''WHERE id = ?'', params = [JStr ''non-existent'']\<rparr>
   \<and> update (fixed_driver 0 JNull) ''users'' [(''id'', JStr ''non-existent'')]
        [(''age'', JNum 31), (''name'', JStr ''B'')] connected_client =
       (Inr 0,
        connected_client\<lparr>storage := 1,
          issued := [DbRun ''UPDATE users SET age = ?, name = ? WHERE id = ?''
                       [JNum 31, JStr ''B'', JStr ''non-existent'']]\<rparr>)"
proof -
  have conn: "db connected_client = Some 0"
    by (simp add: connected_client_def)
  have comp: "buildWhereClause [(''id'', JStr ''non-existent'')] =
       Inr \<lparr>clause = ''WHERE id = ?'', params = [JStr ''non-existent'']\<rparr>"
    by (simp add: buildWhereClause_def where_entry.simps)
  have run: "drv_run (fixed_driver 0 JNull) 0
      (update_query ''users'' [(''age'', JNum 31), (''name'', JStr ''B'')] ''WHERE id = ?'')
      [JNum 31, JStr ''B'', JStr ''non-existent''] (storage connected_client) =
      (Inr \<lparr>changes = Some 0\<rparr>, 1)"
    by (simp add: fixed_driver_def connected_client_def)
  from update_statement_and_count
    [of connected_client 0 "[(''id'', JStr ''non-existent'')]"
      "\<lparr>clause = ''WHERE id = ?'', params = [JStr ''non-existent'']\<rparr>"
      "fixed_driver 0 JNull" "''users''" "[(''age'', JNum 31), (''name'', JStr ''B'')]"
      "\<lparr>changes = Some 0\<rparr>" 1 0] conn comp run
  show ?thesis by (simp add: connected_client_def)
qed

section \<open>create and the identifier\<close>

lemma get_prop_set_prop: "get_prop (set_prop data k v) k = v"
  by (induction data) (simp_all add: get_prop_def)

lemma get_prop_absent: "k \<notin> fst ` set data \<Longrightarrow> get_prop data k = JUndefined"
proof -
  assume "k \<notin> fst ` set data"
  then have "map_of data k = None" by (simp add: map_of_eq_None_iff)
  then show ?thesis by (simp add: get_prop_def)
qed

lemma set_prop_absent: "k \<notin> fst ` set data \<Longrightarrow> set_prop data k v = data @ [(k, v)]"
  by (induction data) auto

lemma assign_id_truthy: "truthy (get_prop data ''id'') \<Longrightarrow> assign_id data uuid = data"
  by (simp add: assign_id_def)

lemma assign_id_falsy:
  "\<not> truthy (get_prop data ''id'') \<Longrightarrow> assign_id data uuid = set_prop data ''id'' (JStr uuid)"
  by (simp add: assign_id_def)

lemma create_not_connected:
  "db c = None \<Longrightarrow> create D t data uuid c = (Inl not_connected, data, c)"
  by (simp add: create_def not_connected_def)

lemma create_connected:
  "db c = Some h \<Longrightarrow>
     create D t data uuid c = try_catch ''Failed to create record: '' (create_body D h t data uuid c)"
  by (simp add: create_def)

lemma create_body_data: "fst (snd (create_body D h t data uuid c)) = assign_id data uuid"
  by (simp add: create_body_def Let_def split: prod.splits sum.splits)

lemma create_body_Inr:
  "create_body D h t data uuid c = (Inr v, rest) \<Longrightarrow> v = get_prop (assign_id data uuid) ''id''"
  by (auto simp: create_body_def Let_def split: prod.splits sum.splits if_splits)

lemma create_data:
  "db c = Some h \<Longrightarrow> fst (snd (create D t data uuid c)) = assign_id data uuid"
  using create_body_data [of D h t data uuid c]
  by (cases "create_body D h t data uuid c"; cases "fst (create_body D h t data uuid c)")
     (simp_all add: create_connected)

lemma create_Inr:
  assumes "create D t data uuid c = (Inr v, data', c')"
  shows "data' = assign_id data uuid \<and> v = get_prop data' ''id''"
proof (cases "db c")
  case None
  with assms show ?thesis by (simp add: create_not_connected)
next
  case (Some h)
  with assms have tc: "try_catch ''Failed to create record: '' (create_body D h t data uuid c)
      = (Inr v, data', c')"
    by (simp add: create_connected)
  then have body: "create_body D h t data uuid c = (Inr v, data', c')"
    by (cases "create_body D h t data uuid c"; cases "fst (create_body D h t data uuid c)") simp_all
  from create_body_Inr [OF body] create_body_data [of D h t data uuid c] body
  show ?thesis by simp
qed

lemma findOne_by_id:
  assumes "db c = Some h" and "buildWhereClause whr = Inr wc"
    and "drv_get D h (''SELECT * FROM '' @ t @ '' '' @ clause wc @ '' LIMIT 1'') (params wc) (storage c)
           = (Inr row, s')"
  shows "findOne D t (no_options\<lparr>qwhere := Some whr\<rparr>) c =
     (Inr (if truthy row then row else JNull),
      c\<lparr>storage := s',
        issued := issued c @ [DbGet (''SELECT * FROM '' @ t @ '' '' @ clause wc @ '' LIMIT 1'') (params wc)]\<rparr>)"
  using assms by (simp add: findOne_def findOne_body_def no_options_def db_get_def)

lemma create_runs:
  assumes conn: "db c = Some h"
    and ins: "drv_run D h (insert_query t (map fst (assign_id data uuid)))
               (map snd (assign_id data uuid)) (storage c) = (Inr r, s1)"
    and comp: "buildWhereClause [(''id'', get_prop (assign_id data uuid) ''id'')] = Inr wc"
    and sel: "drv_get D h (''SELECT * FROM '' @ t @ '' '' @ clause wc @ '' LIMIT 1'') (params wc) s1
               = (Inr row, s2)"
  shows "fst (create D t data uuid c) =
     (if truthy row then Inr (get_prop (assign_id data uuid) ''id'')
      else Inl (DatabaseError
        ''Failed to create record: Failed to create record: Record not found after insertion''))"
proof -
  let ?c1 = "c\<lparr>storage := s1,
      issued := issued c @ [DbRun (insert_query t (map fst (assign_id data uuid)))
                                  (map snd (assign_id data uuid))]\<rparr>"
  have run: "db_run D h (insert_query t (map fst (assign_id data uuid)))
      (map snd (assign_id data uuid)) c = (Inr r, ?c1)"
    using ins by (simp add: db_run_def)
  have c1: "db ?c1 = Some h" "storage ?c1 = s1"
    using conn by simp_all
  note one = findOne_by_id [of ?c1 h, OF c1(1) comp, of D t row s2]
  from sel c1(2) have "findOne D t
      (no_options\<lparr>qwhere := Some [(''id'', get_prop (assign_id data uuid) ''id'')]\<rparr>) ?c1 =
     (Inr (if truthy row then row else JNull),
      ?c1\<lparr>storage := s2,
        issued := issued ?c1 @
          [DbGet (''SELECT * FROM '' @ t @ '' '' @ clause wc @ '' LIMIT 1'') (params wc)]\<rparr>)"
    using one by simp
  with run conn show ?thesis
    by (simp add: create_connected create_body_def Let_def try_catch_def)
qed

text \<open>The definitions that evaluating the client on a concrete driver unfolds.\<close>

lemmas run_defs = create_def create_body_def findOne_def findOne_body_def find_records_def
  find_body_def update_def update_body_def delete_def delete_body_def createTable_def
  createTable_body_def ensureConnected_def try_catch_def db_run_def db_get_def db_all_def
  buildWhereClause_def where_entry.simps operator_case.simps assign_id_def get_prop_def
  insert_query_def update_query_def no_options_def fixed_driver_def connected_client_def
  changes_or_zero_def Let_def connect_def close_def new_client_def

text \<open>
  Claim C2 says that a caller-supplied \<open>id\<close> is returned exactly, falsy values such as
  \<open>0\<close>, \<open>false\<close> and the empty string included. The test of \<open>create\<close> is \<open>!data.id\<close>: a
  record that holds the \<open>id\<close> \<open>0\<close> is given the generated identifier, which overwrites the
  \<open>0\<close> in the caller's object and is what \<open>create\<close> returns.
\<close>

theorem create_falsy_id_counterexample:
  "get_prop [(''id'', JNum 0), (''name'', JStr ''A'')] ''id'' = JNum 0
   \<and> fst (create (fixed_driver 1 (JObj [(''id'', JStr ''u1'')])) ''users''
          [(''id'', JNum 0), (''name'', JStr ''A'')] ''u1'' connected_client) = Inr (JStr ''u1'')
   \<and> fst (snd (create (fixed_driver 1 (JObj [(''id'', JStr ''u1'')])) ''users''
          [(''id'', JNum 0), (''name'', JStr ''A'')] ''u1'' connected_client)) =
       [(''id'', JStr ''u1''), (''name'', JStr ''A'')]"
  by (simp add: run_defs)

text \<open>
  Claim C2, amended. Whenever \<open>create\<close> returns, it returns the \<open>id\<close> of the caller's object
  as the call leaves it. When the \<open>id\<close> supplied is truthy the object is unchanged and
  that \<open>id\<close> is returned; when it is falsy (\<open>undefined\<close>, \<open>null\<close>, \<open>false\<close>, \<open>0\<close>, \<open>NaN\<close>,
  the empty string) or absent, the generated identifier is assigned to \<open>data.id\<close> and
  returned; an absent \<open>id\<close> is falsy, and the assignment then appends the field. On a
  connected client the assignment is made whether or not the call returns. The call does
  return when the driver executes the insertion and the query for the \<open>id\<close> finds a row.
\<close>

theorem create_returns_id:
  "(create D t data uuid c = (Inr v, data', c') \<longrightarrow>
      data' = assign_id data uuid \<and> v = get_prop data' ''id''
      \<and> (truthy (get_prop data ''id'') \<longrightarrow> data' = data \<and> v = get_prop data ''id'')
      \<and> (\<not> truthy (get_prop data ''id'') \<longrightarrow>
            data' = set_prop data ''id'' (JStr uuid) \<and> v = JStr uuid))
   \<and> (''id'' \<notin> fst ` set data \<longrightarrow>
        \<not> truthy (get_prop data ''id'') \<and> assign_id data uuid = data @ [(''id'', JStr uuid)])
   \<and> (db c = Some h \<longrightarrow> fst (snd (create D t data uuid c)) = assign_id data uuid)
   \<and> (db c = Some h
       \<and> drv_run D h (insert_query t (map fst (assign_id data uuid)))
            (map snd (assign_id data uuid)) (storage c) = (Inr r, s1)
       \<and> buildWhereClause [(''id'', get_prop (assign_id data uuid) ''id'')] = Inr wc
       \<and> drv_get D h (''SELECT * FROM '' @ t @ '' '' @ clause wc @ '' LIMIT 1'') (params wc) s1
            = (Inr row, s2)
       \<and> truthy row \<longrightarrow>
       fst (create D t data uuid c) = Inr (get_prop (assign_id data uuid) ''id''))"
proof -
  have ret: "create D t data uuid c = (Inr v, data', c') \<longrightarrow>
      data' = assign_id data uuid \<and> v = get_prop data' ''id''
      \<and> (truthy (get_prop data ''id'') \<longrightarrow> data' = data \<and> v = get_prop data ''id'')
      \<and> (\<not> truthy (get_prop data ''id'') \<longrightarrow>
            data' = set_prop data ''id'' (JStr uuid) \<and> v = JStr uuid)"
  proof
    assume "create D t data uuid c = (Inr v, data', c')"
    from create_Inr [OF this]
    have d: "data' = assign_id data uuid" and v: "v = get_prop data' ''id''" by simp_all
    show "data' = assign_id data uuid \<and> v = get_prop data' ''id''
      \<and> (truthy (get_prop data ''id'') \<longrightarrow> data' = data \<and> v = get_prop data ''id'')
      \<and> (\<not> truthy (get_prop data ''id'') \<longrightarrow>
            data' = set_prop data ''id'' (JStr uuid) \<and> v = JStr uuid)"
      using d v by (simp add: assign_id_def get_prop_set_prop)
  qed
  have absent: "''id'' \<notin> fst ` set data \<longrightarrow>
        \<not> truthy (get_prop data ''id'') \<and> assign_id data uuid = data @ [(''id'', JStr uuid)]"
    using get_prop_absent [of "''id''" data] set_prop_absent [of "''id''" data "JStr uuid"]
    by (simp add: assign_id_def)
  have mut: "db c = Some h \<longrightarrow> fst (snd (create D t data uuid c)) = assign_id data uuid"
    by (simp add: create_data)
  have runs: "db c = Some h
       \<and> drv_run D h (insert_query t (map fst (assign_id data uuid)))
            (map snd (assign_id data uuid)) (storage c) = (Inr r, s1)
       \<and> buildWhereClause [(''id'', get_prop (assign_id data uuid) ''id'')] = Inr wc
       \<and> drv_get D h (''SELECT * FROM '' @ t @ '' '' @ clause wc @ '' LIMIT 1'') (params wc) s1
            = (Inr row, s2)
       \<and> truthy row \<longrightarrow>
       fst (create D t data uuid c) = Inr (get_prop (assign_id data uuid) ''id'')"
    using create_runs [of c h D t data uuid r s1 wc row s2] by simp
  from ret absent mut runs show ?thesis by blast
qed

theorem create_returns_id_witness:
  "create (fixed_driver 1 (JObj [(''id'', JStr ''u1'')])) ''users'' [(''name'', JStr ''A'')] ''u1''
      connected_client =
     (Inr (JStr ''u1''), [(''name'', JStr ''A''), (''id'', JStr ''u1'')],
      connected_client\<lparr>storage := 1,
        issued := [DbRun (insert_query ''users'' [''name'', ''id'']) [JStr ''A'', JStr ''u1''],
                   DbGet ''SELECT * FROM users WHERE id = ? LIMIT 1'' [JStr ''u1'']]\<rparr>)
   \<and> assign_id [(''name'', JStr ''A'')] ''u1'' = [(''name'', JStr ''A''), (''id'', JStr ''u1'')]
   \<and> create (fixed_driver 1 (JObj [(''id'', JStr ''mine'')])) ''users''
        [(''id'', JStr ''mine''), (''name'', JStr ''A'')] ''u1'' connected_client =
     (Inr (JStr ''mine''), [(''id'', JStr ''mine''), (''name'', JStr ''A'')],
      connected_client\<lparr>storage := 1,
        issued := [DbRun (insert_query ''users'' [''id'', ''name'']) [JStr ''mine'', JStr ''A''],
                   DbGet ''SELECT * FROM users WHERE id = ? LIMIT 1'' [JStr ''mine'']]\<rparr>)
   \<and> truthy (get_prop [(''id'', JStr ''mine''), (''name'', JStr ''A'')] ''id'')"
proof -
  have gen: "create (fixed_driver 1 (JObj [(''id'', JStr ''u1'')])) ''users'' [(''name'', JStr ''A'')] ''u1''
      connected_client =
     (Inr (JStr ''u1''), [(''name'', JStr ''A''), (''id'', JStr ''u1'')],
      connected_client\<lparr>storage := 1,
        issued := [DbRun (insert_query ''users'' [''name'', ''id'']) [JStr ''A'', JStr ''u1''],
                   DbGet ''SELECT * FROM users WHERE id = ? LIMIT 1'' [JStr ''u1'']]\<rparr>)"
    by (simp add: run_defs)
  have own: "create (fixed_driver 1 (JObj [(''id'', JStr ''mine'')])) ''users''
        [(''id'', JStr ''mine''), (''name'', JStr ''A'')] ''u1'' connected_client =
     (Inr (JStr ''mine''), [(''id'', JStr ''mine''), (''name'', JStr ''A'')],
      connected_client\<lparr>storage := 1,
        issued := [DbRun (insert_query ''users'' [''id'', ''name'']) [JStr ''mine'', JStr ''A''],
                   DbGet ''SELECT * FROM users WHERE id = ? LIMIT 1'' [JStr ''mine'']]\<rparr>)"
    by (simp add: run_defs)
  have absent: "''id'' \<notin> fst ` set [(''name'', JStr ''A'')]"
    by simp
  have conn: "db connected_client = Some 0"
    by (simp add: connected_client_def)
  have ins: "drv_run (fixed_driver 1 (JObj [(''id'', JStr ''u1'')])) 0
      (insert_query ''users'' (map fst (assign_id [(''name'', JStr ''A'')] ''u1'')))
      (map snd (assign_id [(''name'', JStr ''A'')] ''u1'')) (storage connected_client) =
      (Inr \<lparr>changes = Some 1\<rparr>, 1)"
    by (simp add: fixed_driver_def connected_client_def)
  have comp: "buildWhereClause [(''id'', get_prop (assign_id [(''name'', JStr ''A'')] ''u1'') ''id'')] =
      Inr \<lparr>clause = ''WHERE id = ?'', params = [JStr ''u1'']\<rparr>"
    by (simp add: buildWhereClause_def where_entry.simps assign_id_def get_prop_def)
  have sel: "drv_get (fixed_driver 1 (JObj [(''id'', JStr ''u1'')])) 0
      (''SELECT * FROM '' @ ''users'' @ '' '' @
         clause \<lparr>clause = ''WHERE id = ?'', params = [JStr ''u1'']\<rparr> @ '' LIMIT 1'')
      (params \<lparr>clause = ''WHERE id = ?'', params = [JStr ''u1'']\<rparr>) 1 =
      (Inr (JObj [(''id'', JStr ''u1'')]), 1)"
    by (simp add: fixed_driver_def)
  have row: "truthy (JObj [(''id'', JStr ''u1'')])"
    by simp
  note generated = create_returns_id
    [where D = "fixed_driver 1 (JObj [(''id'', JStr ''u1'')])" and t = "''users''"
       and data = "[(''name'', JStr ''A'')]" and uuid = "''u1''" and c = connected_client
       and v = "JStr ''u1''" and data' = "[(''name'', JStr ''A''), (''id'', JStr ''u1'')]"
       and c' = "connected_client\<lparr>storage := 1,
         issued := [DbRun (insert_query ''users'' [''name'', ''id'']) [JStr ''A'', JStr ''u1''],
                    DbGet ''SELECT * FROM users WHERE id = ? LIMIT 1'' [JStr ''u1'']]\<rparr>"
       and h = 0 and r = "\<lparr>changes = Some 1\<rparr>" and ?s1.0 = 1
       and wc = "\<lparr>clause = ''WHERE id = ?'', params = [JStr ''u1'']\<rparr>"
       and row = "JObj [(''id'', JStr ''u1'')]" and ?s2.0 = 1]
  from generated [THEN conjunct1, rule_format, OF gen]
  have assigned: "assign_id [(''name'', JStr ''A'')] ''u1'' = [(''name'', JStr ''A''), (''id'', JStr ''u1'')]"
    by simp
  from generated [THEN conjunct2, THEN conjunct1, rule_format, OF absent]
  have falsy: "\<not> truthy (get_prop [(''name'', JStr ''A'')] ''id'')"
    by simp
  from conn ins comp sel row
  have "fst (create (fixed_driver 1 (JObj [(''id'', JStr ''u1'')])) ''users'' [(''name'', JStr ''A'')]
      ''u1'' connected_client) = Inr (get_prop (assign_id [(''name'', JStr ''A'')] ''u1'') ''id'')"
    by (intro generated [THEN conjunct2, THEN conjunct2, THEN conjunct2, rule_format] conjI)
  from create_returns_id [THEN conjunct1, rule_format, OF own]
  have supplied: "truthy (get_prop [(''id'', JStr ''mine''), (''name'', JStr ''A'')] ''id'')"
    by (simp add: get_prop_def)
  from gen assigned own supplied show ?thesis
    by (intro conjI)
qed

section \<open>Errors and their prefixes\<close>



section \<open>Operator objects and unknown operators\<close>

lemma find_append_cases:
  "List.find P (xs @ ys) = (case List.find P xs of None \<Rightarrow> List.find P ys | Some x \<Rightarrow> Some x)"
  by (induction xs) simp_all

lemma where_entry_closed:
  "where_entry e (cs, ps) =
     (case List.find unknown_operator (entry_operators e) of
        None \<Rightarrow> Inr (cs @ entry_fragments e, ps @ entry_params e)
      | Some u \<Rightarrow> Inl (DatabaseError (''Unknown operator: '' @ fst u)))"
proof (cases "object_like (snd e)")
  case True
  then show ?thesis
    by (cases e)
      (simp add: where_entry_object forEach_operator_case entry_operators_def
        entry_fragments_def entry_params_def split: option.splits)
next
  case False
  then show ?thesis
    by (cases e)
      (simp add: where_entry_scalar entry_operators_def entry_fragments_def entry_params_def)
qed

lemma forEach_where_entry_closed:
  "forEach where_entry whr (cs, ps) =
     (case first_unknown whr of
        None \<Rightarrow> Inr (cs @ concat (map entry_fragments whr), ps @ concat (map entry_params whr))
      | Some op \<Rightarrow> Inl (DatabaseError (''Unknown operator: '' @ op)))"
proof (induction whr arbitrary: cs ps)
  case Nil
  show ?case by (simp add: first_unknown_def)
next
  case (Cons e whr)
  show ?case
  proof (cases "List.find unknown_operator (entry_operators e)")
    case None
    then have "first_unknown (e # whr) = first_unknown whr"
      by (simp add: first_unknown_def find_append_cases)
    with None Cons.IH show ?thesis
      by (simp add: where_entry_closed split: option.splits)
  next
    case (Some u)
    then have "first_unknown (e # whr) = Some (fst u)"
      by (simp add: first_unknown_def find_append_cases)
    with Some show ?thesis
      by (simp add: where_entry_closed)
  qed
qed

lemma buildWhereClause_closed:
  "buildWhereClause whr =
     (case first_unknown whr of
        None \<Rightarrow>
          Inr \<lparr>clause = (if concat (map entry_fragments whr) = [] then []
                          else ''WHERE '' @ join '' AND '' (concat (map entry_fragments whr))),
               params = concat (map entry_params whr)\<rparr>
      | Some op \<Rightarrow> Inl (DatabaseError (''Unknown operator: '' @ op)))"
  by (cases "first_unknown whr") (simp_all add: buildWhereClause_def forEach_where_entry_closed)

lemma first_unknown_throws:
  "first_unknown whr = Some op \<Longrightarrow>
     buildWhereClause whr = Inl (DatabaseError (''Unknown operator: '' @ op))"
  by (simp add: buildWhereClause_closed)

lemma create_compile_error:
  assumes "db c = Some h"
    and "drv_run D h (insert_query t (map fst (assign_id data uuid)))
           (map snd (assign_id data uuid)) (storage c) = (Inr r, s1)"
    and "buildWhereClause [(''id'', get_prop (assign_id data uuid) ''id'')] = Inl x"
  shows "create D t data uuid c =
     (Inl (DatabaseError (''Failed to create record: Failed to find record: '' @ error_text x)),
      assign_id data uuid,
      c\<lparr>storage := s1,
        issued := issued c @ [DbRun (insert_query t (map fst (assign_id data uuid)))
                                     (map snd (assign_id data uuid))]\<rparr>)"
proof -
  let ?c1 = "c\<lparr>storage := s1,
        issued := issued c @ [DbRun (insert_query t (map fst (assign_id data uuid)))
                                     (map snd (assign_id data uuid))]\<rparr>"
  have run: "db_run D h (insert_query t (map fst (assign_id data uuid)))
      (map snd (assign_id data uuid)) c = (Inr r, ?c1)"
    using assms(2) by (simp add: db_run_def)
  have "db ?c1 = Some h" using assms(1) by simp
  then have "findOne D t
      (no_options\<lparr>qwhere := Some [(''id'', get_prop (assign_id data uuid) ''id'')]\<rparr>) ?c1 =
      (Inl (DatabaseError (''Failed to find record: '' @ error_text x)), ?c1)"
    using assms(3) by (intro findOne_compile_error) simp_all
  with run assms(1) show ?thesis
    by (simp add: create_def create_body_def Let_def try_catch_def)
qed

text \<open>
  Claim C4 says that an operator outside the five makes the compilation fail before any
  statement reaches storage. \<open>create\<close> compiles the condition \<open>{id: data.id}\<close> of its check
  only after the \<open>INSERT\<close> has been executed: with the \<open>id\<close> \<open>{foo: 1}\<close> the statement is
  handed to the driver, the storage changes, and then the compilation throws
  \<open>Unknown operator: foo\<close>.
\<close>

theorem create_inserts_before_compiling_counterexample:
  "create (fixed_driver 1 JNull) ''users'' [(''id'', JObj [(''foo'', JNum 1)])] ''u1''
      connected_client =
     (Inl (DatabaseError
        ''Failed to create record: Failed to find record: Unknown operator: foo''),
      [(''id'', JObj [(''foo'', JNum 1)])],
      connected_client\<lparr>storage := 1,
        issued := [DbRun (insert_query ''users'' [''id'']) [JObj [(''foo'', JNum 1)]]]\<rparr>)
   \<and> storage connected_client = 0
   \<and> issued connected_client = []"
  by (simp add: run_defs)

text \<open>
  Claim C4, amended. \<open>buildWhereClause\<close> throws the \<open>DatabaseError\<close> \<open>Unknown operator: op\<close>
  for the first operator \<open>op\<close>, in the order of the condition and of its operator objects,
  that is none of \<open>gt\<close>, \<open>lt\<close>, \<open>gte\<close>, \<open>lte\<close>, \<open>ne\<close>; when there is none it returns the
  fragments of all entries joined with \<open>AND\<close> after \<open>WHERE\<close>, and their parameters. An entry
  whose value is an operator object contributes, operator after operator in the object's
  order, the fragment \<open>column symbol ?\<close> with the symbols \<open>>\<close>, \<open><\<close>, \<open>>=\<close>, \<open><=\<close>, \<open>!=\<close>, and
  the operator's value as parameter. In \<open>find\<close>, \<open>findOne\<close>, \<open>update\<close> and \<open>delete\<close> the
  error (under the operation's prefix) comes before any statement reaches storage: the
  client is as it was. In \<open>create\<close> the condition on the \<open>id\<close> is compiled after the
  insertion, so the error comes with the \<open>INSERT\<close> issued and the storage changed.
\<close>

theorem operator_conditions_compile:
  "buildWhereClause whr =
     (case first_unknown whr of
        None \<Rightarrow>
          Inr \<lparr>clause = (if concat (map entry_fragments whr) = [] then []
                          else ''WHERE '' @ join '' AND '' (concat (map entry_fragments whr))),
               params = concat (map entry_params whr)\<rparr>
      | Some op \<Rightarrow> Inl (DatabaseError (''Unknown operator: '' @ op)))
   \<and> (first_unknown whr = Some u \<and> db c = Some h \<and> qwhere opts = Some whr \<longrightarrow>
        find_records D t opts c =
          (Inl (DatabaseError (''Failed to find records: Unknown operator: '' @ u)), c)
        \<and> findOne D t opts c =
          (Inl (DatabaseError (''Failed to find record: Unknown operator: '' @ u)), c)
        \<and> update D t whr data c =
          (Inl (DatabaseError (''Failed to update records: Unknown operator: '' @ u)), c)
        \<and> delete D t whr c =
          (Inl (DatabaseError (''Failed to delete records: Unknown operator: '' @ u)), c))
   \<and> (db c = Some h
       \<and> drv_run D h (insert_query t (map fst (assign_id data uuid)))
            (map snd (assign_id data uuid)) (storage c) = (Inr r, s1)
       \<and> first_unknown [(''id'', get_prop (assign_id data uuid) ''id'')] = Some u \<longrightarrow>
        create D t data uuid c =
          (Inl (DatabaseError
             (''Failed to create record: Failed to find record: Unknown operator: '' @ u)),
           assign_id data uuid,
           c\<lparr>storage := s1,
             issued := issued c @ [DbRun (insert_query t (map fst (assign_id data uuid)))
                                          (map snd (assign_id data uuid))]\<rparr>))
   \<and> entry_operators (key, JObj ops) = ops
   \<and> entry_fragments (key, JObj ops) = map (operator_fragment key) ops
   \<and> entry_params (key, JObj ops) = map snd ops
   \<and> operator_fragment key (''gt'', v) = key @ '' > ?''
   \<and> operator_fragment key (''lt'', v) = key @ '' < ?''
   \<and> operator_fragment key (''gte'', v) = key @ '' >= ?''
   \<and> operator_fragment key (''lte'', v) = key @ '' <= ?''
   \<and> operator_fragment key (''ne'', v) = key @ '' != ?''
   \<and> (unknown_operator (op, v) \<longleftrightarrow> op \<notin> set [''gt'', ''lt'', ''gte'', ''lte'', ''ne''])"
proof -
  have ops4: "first_unknown whr = Some u \<and> db c = Some h \<and> qwhere opts = Some whr \<longrightarrow>
        find_records D t opts c =
          (Inl (DatabaseError (''Failed to find records: Unknown operator: '' @ u)), c)
        \<and> findOne D t opts c =
          (Inl (DatabaseError (''Failed to find record: Unknown operator: '' @ u)), c)
        \<and> update D t whr data c =
          (Inl (DatabaseError (''Failed to update records: Unknown operator: '' @ u)), c)
        \<and> delete D t whr c =
          (Inl (DatabaseError (''Failed to delete records: Unknown operator: '' @ u)), c)"
  proof
    assume a: "first_unknown whr = Some u \<and> db c = Some h \<and> qwhere opts = Some whr"
    then have thrown: "buildWhereClause whr = Inl (DatabaseError (''Unknown operator: '' @ u))"
      by (simp add: first_unknown_throws)
    from a thrown
    show "find_records D t opts c =
          (Inl (DatabaseError (''Failed to find records: Unknown operator: '' @ u)), c)
        \<and> findOne D t opts c =
          (Inl (DatabaseError (''Failed to find record: Unknown operator: '' @ u)), c)
        \<and> update D t whr data c =
          (Inl (DatabaseError (''Failed to update records: Unknown operator: '' @ u)), c)
        \<and> delete D t whr c =
          (Inl (DatabaseError (''Failed to delete records: Unknown operator: '' @ u)), c)"
      using find_records_compile_error [of c h opts whr "DatabaseError (''Unknown operator: '' @ u)" D t]
        findOne_compile_error [of c h opts whr "DatabaseError (''Unknown operator: '' @ u)" D t]
        update_compile_error [of c h whr "DatabaseError (''Unknown operator: '' @ u)" D t data]
        delete_compile_error [of c h whr "DatabaseError (''Unknown operator: '' @ u)" D t]
      by simp
  qed
  have cr: "db c = Some h
       \<and> drv_run D h (insert_query t (map fst (assign_id data uuid)))
            (map snd (assign_id data uuid)) (storage c) = (Inr r, s1)
       \<and> first_unknown [(''id'', get_prop (assign_id data uuid) ''id'')] = Some u \<longrightarrow>
        create D t data uuid c =
          (Inl (DatabaseError
             (''Failed to create record: Failed to find record: Unknown operator: '' @ u)),
           assign_id data uuid,
           c\<lparr>storage := s1,
             issued := issued c @ [DbRun (insert_query t (map fst (assign_id data uuid)))
                                          (map snd (assign_id data uuid))]\<rparr>)"
  proof
    assume a: "db c = Some h
       \<and> drv_run D h (insert_query t (map fst (assign_id data uuid)))
            (map snd (assign_id data uuid)) (storage c) = (Inr r, s1)
       \<and> first_unknown [(''id'', get_prop (assign_id data uuid) ''id'')] = Some u"
    then have "buildWhereClause [(''id'', get_prop (assign_id data uuid) ''id'')] =
        Inl (DatabaseError (''Unknown operator: '' @ u))"
      by (simp add: first_unknown_throws)
    with a create_compile_error [of c h D t data uuid r s1 "DatabaseError (''Unknown operator: '' @ u)"]
    show "create D t data uuid c =
          (Inl (DatabaseError
             (''Failed to create record: Failed to find record: Unknown operator: '' @ u)),
           assign_id data uuid,
           c\<lparr>storage := s1,
             issued := issued c @ [DbRun (insert_query t (map fst (assign_id data uuid)))
                                          (map snd (assign_id data uuid))]\<rparr>)"
      by simp
  qed
  have closed: "buildWhereClause whr =
     (case first_unknown whr of
        None \<Rightarrow>
          Inr \<lparr>clause = (if concat (map entry_fragments whr) = [] then []
                          else ''WHERE '' @ join '' AND '' (concat (map entry_fragments whr))),
               params = concat (map entry_params whr)\<rparr>
      | Some op \<Rightarrow> Inl (DatabaseError (''Unknown operator: '' @ op)))"
    by (cases "first_unknown whr") (simp_all add: buildWhereClause_def forEach_where_entry_closed)
  have entry: "entry_operators (key, JObj ops) = ops"
    "entry_fragments (key, JObj ops) = map (operator_fragment key) ops"
    "entry_params (key, JObj ops) = map snd ops"
    by (simp_all add: entry_operators_def entry_fragments_def entry_params_def object_like_def)
  have table: "operator_fragment key (''gt'', v) = key @ '' > ?''"
    "operator_fragment key (''lt'', v) = key @ '' < ?''"
    "operator_fragment key (''gte'', v) = key @ '' >= ?''"
    "operator_fragment key (''lte'', v) = key @ '' <= ?''"
    "operator_fragment key (''ne'', v) = key @ '' != ?''"
    by (simp_all add: operator_fragment_def op_symbol_def)
  have others: "unknown_operator (op, v) \<longleftrightarrow> op \<notin> set [''gt'', ''lt'', ''gte'', ''lte'', ''ne'']"
    by (simp add: unknown_operator_def op_symbol_def)
  from closed entry table others ops4 cr
  show ?thesis by (intro conjI)
qed

theorem operator_conditions_compile_witness:
  "buildWhereClause [(''age'', JObj [(''gt'', JNum 20), (''lte'', JNum 65)]), (''name'', JStr ''A'')] =
     Inr \<lparr>clause = ''WHERE age > ? AND age <= ? AND name = ?'',
          params = [JNum 20, JNum 65, JStr ''A'']\<rparr>
   \<and> first_unknown
        [(''name'', JStr ''A''), (''age'', JObj [(''gt'', JNum 20), (''foo'', JNum 1), (''bar'', JNum 2)])]
       = Some ''foo''
   \<and> buildWhereClause
        [(''name'', JStr ''A''), (''age'', JObj [(''gt'', JNum 20), (''foo'', JNum 1), (''bar'', JNum 2)])]
       = Inl (DatabaseError ''Unknown operator: foo'')
   \<and> find_records (fixed_driver 1 JNull) ''users''
        (no_options\<lparr>qwhere := Some [(''name'', JStr ''A''),
           (''age'', JObj [(''gt'', JNum 20), (''foo'', JNum 1), (''bar'', JNum 2)])]\<rparr>)
        connected_client =
       (Inl (DatabaseError ''Failed to find records: Unknown operator: foo''), connected_client)
   \<and> findOne (fixed_driver 1 JNull) ''users''
        (no_options\<lparr>qwhere := Some [(''name'', JStr ''A''),
           (''age'', JObj [(''gt'', JNum 20), (''foo'', JNum 1), (''bar'', JNum 2)])]\<rparr>)
        connected_client =
       (Inl (DatabaseError ''Failed to find record: Unknown operator: foo''), connected_client)
   \<and> update (fixed_driver 1 JNull) ''users''
        [(''name'', JStr ''A''), (''age'', JObj [(''gt'', JNum 20), (''foo'', JNum 1), (''bar'', JNum 2)])]
        [(''age'', JNum 31)] connected_client =
       (Inl (DatabaseError ''Failed to update records: Unknown operator: foo''), connected_client)
   \<and> delete (fixed_driver 1 JNull) ''users''
        [(''name'', JStr ''A''), (''age'', JObj [(''gt'', JNum 20), (''foo'', JNum 1), (''bar'', JNum 2)])]
        connected_client =
       (Inl (DatabaseError ''Failed to delete records: Unknown operator: foo''), connected_client)
   \<and> create (fixed_driver 1 JNull) ''users'' [(''id'', JObj [(''foo'', JNum 1)])] ''u1''
        connected_client =
       (Inl (DatabaseError
          ''Failed to create record: Failed to find record: Unknown operator: foo''),
        [(''id'', JObj [(''foo'', JNum 1)])],
        connected_client\<lparr>storage := 1,
          issued := [DbRun (insert_query ''users'' [''id'']) [JObj [(''foo'', JNum 1)]]]\<rparr>)"
proof -
  let ?good = "[(''age'', JObj [(''gt'', JNum 20), (''lte'', JNum 65)]), (''name'', JStr ''A'')]"
  let ?bad = "[(''name'', JStr ''A''),
    (''age'', JObj [(''gt'', JNum 20), (''foo'', JNum 1), (''bar'', JNum 2)])]"
  let ?data = "[(''id'', JObj [(''foo'', JNum 1)])]"
  have known: "first_unknown ?good = None"
    by (simp add: first_unknown_def entry_operators_def object_like_def unknown_operator_def
        op_symbol_def)
  have frags: "concat (map entry_fragments ?good) = [''age > ?'', ''age <= ?'', ''name = ?'']"
    by (simp add: entry_fragments_def object_like_def operator_fragment_def op_symbol_def)
  have vals: "concat (map entry_params ?good) = [JNum 20, JNum 65, JStr ''A'']"
    by (simp add: entry_params_def object_like_def)
  have unknown: "first_unknown ?bad = Some ''foo''"
    by (simp add: first_unknown_def entry_operators_def object_like_def unknown_operator_def
        op_symbol_def)
  have conn: "db connected_client = Some 0"
    by (simp add: connected_client_def)
  have opts: "qwhere (no_options\<lparr>qwhere := Some ?bad\<rparr>) = Some ?bad"
    by simp
  have assigned: "assign_id ?data ''u1'' = ?data"
    by (simp add: assign_id_def get_prop_def)
  have ins: "drv_run (fixed_driver 1 JNull) 0 (insert_query ''users'' (map fst (assign_id ?data ''u1'')))
      (map snd (assign_id ?data ''u1'')) (storage connected_client) = (Inr \<lparr>changes = Some 1\<rparr>, 1)"
    by (simp add: fixed_driver_def connected_client_def)
  have idop: "first_unknown [(''id'', get_prop (assign_id ?data ''u1'') ''id'')] = Some ''foo''"
    by (simp add: assigned get_prop_def first_unknown_def entry_operators_def object_like_def
        unknown_operator_def op_symbol_def)
  have run_good: "buildWhereClause ?good =
     Inr \<lparr>clause = ''WHERE age > ? AND age <= ? AND name = ?'',
          params = [JNum 20, JNum 65, JStr ''A'']\<rparr>"
    by (simp add: buildWhereClause_def where_entry.simps operator_case.simps)
  have run_bad: "buildWhereClause ?bad = Inl (DatabaseError ''Unknown operator: foo'')"
    by (simp add: buildWhereClause_def where_entry.simps operator_case.simps)
  have run_find: "find_records (fixed_driver 1 JNull) ''users'' (no_options\<lparr>qwhere := Some ?bad\<rparr>)
        connected_client =
       (Inl (DatabaseError ''Failed to find records: Unknown operator: foo''), connected_client)"
    by (simp add: run_defs)
  have run_findOne: "findOne (fixed_driver 1 JNull) ''users'' (no_options\<lparr>qwhere := Some ?bad\<rparr>)
        connected_client =
       (Inl (DatabaseError ''Failed to find record: Unknown operator: foo''), connected_client)"
    by (simp add: run_defs)
  have run_update: "update (fixed_driver 1 JNull) ''users'' ?bad [(''age'', JNum 31)] connected_client =
       (Inl (DatabaseError ''Failed to update records: Unknown operator: foo''), connected_client)"
    by (simp add: run_defs)
  have run_delete: "delete (fixed_driver 1 JNull) ''users'' ?bad connected_client =
       (Inl (DatabaseError ''Failed to delete records: Unknown operator: foo''), connected_client)"
    by (simp add: run_defs)
  have run_create: "create (fixed_driver 1 JNull) ''users'' ?data ''u1'' connected_client =
       (Inl (DatabaseError
          ''Failed to create record: Failed to find record: Unknown operator: foo''),
        ?data,
        connected_client\<lparr>storage := 1,
          issued := [DbRun (insert_query ''users'' [''id'']) [JObj [(''foo'', JNum 1)]]]\<rparr>)"
    by (simp add: run_defs)
  from operator_conditions_compile [where whr = ?good, THEN conjunct1, unfolded known frags vals]
  have good: "buildWhereClause ?good =
     Inr \<lparr>clause = ''WHERE age > ? AND age <= ? AND name = ?'',
          params = [JNum 20, JNum 65, JStr ''A'']\<rparr>"
    by simp
  from operator_conditions_compile [where whr = ?bad, THEN conjunct1, unfolded unknown]
  have bad: "buildWhereClause ?bad = Inl (DatabaseError ''Unknown operator: foo'')"
    by simp
  have four: "find_records (fixed_driver 1 JNull) ''users'' (no_options\<lparr>qwhere := Some ?bad\<rparr>)
        connected_client =
       (Inl (DatabaseError (''Failed to find records: Unknown operator: '' @ ''foo'')), connected_client)
     \<and> findOne (fixed_driver 1 JNull) ''users'' (no_options\<lparr>qwhere := Some ?bad\<rparr>)
        connected_client =
       (Inl (DatabaseError (''Failed to find record: Unknown operator: '' @ ''foo'')), connected_client)
     \<and> update (fixed_driver 1 JNull) ''users'' ?bad [(''age'', JNum 31)] connected_client =
       (Inl (DatabaseError (''Failed to update records: Unknown operator: '' @ ''foo'')), connected_client)
     \<and> delete (fixed_driver 1 JNull) ''users'' ?bad connected_client =
       (Inl (DatabaseError (''Failed to delete records: Unknown operator: '' @ ''foo'')), connected_client)"
    using unknown conn opts
    by (intro operator_conditions_compile [THEN conjunct2, THEN conjunct1, rule_format] conjI)
  have cr: "create (fixed_driver 1 JNull) ''users'' ?data ''u1'' connected_client =
       (Inl (DatabaseError
          (''Failed to create record: Failed to find record: Unknown operator: '' @ ''foo'')),
        assign_id ?data ''u1'',
        connected_client\<lparr>storage := 1,
          issued := issued connected_client @
            [DbRun (insert_query ''users'' (map fst (assign_id ?data ''u1'')))
                   (map snd (assign_id ?data ''u1''))]\<rparr>)"
    using conn ins idop
    by (intro operator_conditions_compile
          [THEN conjunct2, THEN conjunct2, THEN conjunct1, rule_format] conjI)
  have cr': "create (fixed_driver 1 JNull) ''users'' ?data ''u1'' connected_client =
       (Inl (DatabaseError
          ''Failed to create record: Failed to find record: Unknown operator: foo''),
        ?data,
        connected_client\<lparr>storage := 1,
          issued := [DbRun (insert_query ''users'' [''id'']) [JObj [(''foo'', JNum 1)]]]\<rparr>)"
    using cr by (simp add: assigned connected_client_def)
  from four have four': "find_records (fixed_driver 1 JNull) ''users'' (no_options\<lparr>qwhere := Some ?bad\<rparr>)
        connected_client =
       (Inl (DatabaseError ''Failed to find records: Unknown operator: foo''), connected_client)
     \<and> findOne (fixed_driver 1 JNull) ''users'' (no_options\<lparr>qwhere := Some ?bad\<rparr>)
        connected_client =
       (Inl (DatabaseError ''Failed to find record: Unknown operator: foo''), connected_client)
     \<and> update (fixed_driver 1 JNull) ''users'' ?bad [(''age'', JNum 31)] connected_client =
       (Inl (DatabaseError ''Failed to update records: Unknown operator: foo''), connected_client)
     \<and> delete (fixed_driver 1 JNull) ''users'' ?bad connected_client =
       (Inl (DatabaseError ''Failed to delete records: Unknown operator: foo''), connected_client)"
    by simp
  from good run_good bad run_bad have "buildWhereClause ?good \<noteq> buildWhereClause ?bad"
    by simp
  from run_good unknown run_bad four' run_find run_findOne run_update run_delete cr' run_create
  show ?thesis
    by (intro conjI) (erule conjE | assumption)+
qed

section \<open>close and connect\<close>

lemma operations_unconnected:
  assumes "db c = None"
  shows "createTable D t cols c =
           (Inl (DatabaseError ''Database not connected. Call connect() first.''), c)"
    and "find_records D t opts c =
           (Inl (DatabaseError ''Database not connected. Call connect() first.''), c)"
    and "findOne D t opts c =
           (Inl (DatabaseError ''Database not connected. Call connect() first.''), c)"
    and "create D t data uuid c =
           (Inl (DatabaseError ''Database not connected. Call connect() first.''), data, c)"
    and "update D t whr data c =
           (Inl (DatabaseError ''Database not connected. Call connect() first.''), c)"
    and "delete D t whr c =
           (Inl (DatabaseError ''Database not connected. Call connect() first.''), c)"
  using assms
  by (simp_all add: createTable_def find_records_def findOne_def create_def update_def
      delete_def ensureConnected_def)

lemma perform_unconnected:
  assumes "db c = None" and "x \<noteq> Connect"
  shows "perform D x c =
     (if data_operation x
      then Some (DatabaseError ''Database not connected. Call connect() first.'') else None, c)"
proof (cases x)
  case Close
  with assms(1) show ?thesis by (simp add: close_def)
qed (use assms in \<open>simp_all add: operations_unconnected\<close>)

lemma perform_all_unconnected:
  "db c = None \<Longrightarrow> Connect \<notin> set calls \<Longrightarrow> perform_all D calls c = c"
proof (induction calls)
  case Nil
  show ?case by simp
next
  case (Cons x calls)
  then have "x \<noteq> Connect" by auto
  with Cons show ?case by (simp add: perform_unconnected)
qed

text \<open>
  Claim C3 says that after \<open>close\<close> no sequence of calls on the same instance, \<open>connect\<close>
  included, makes a data operation succeed again. \<open>close\<close> sets \<open>db\<close> back to \<open>null\<close>, the
  value it has in a fresh instance, and \<open>connect\<close> opens the storage whatever came
  before: after connect, close, connect the instance is connected and \<open>find\<close> returns rows.
\<close>

theorem reconnect_after_close_counterexample:
  "db (perform_all (fixed_driver 1 JNull) [Connect] (new_client ''test.sqlite'' 0)) = Some 0
   \<and> db (perform_all (fixed_driver 1 JNull) [Connect, Close] (new_client ''test.sqlite'' 0)) = None
   \<and> fst (find_records (fixed_driver 1 JNull) ''users'' no_options
        (perform_all (fixed_driver 1 JNull) [Connect, Close, Connect] (new_client ''test.sqlite'' 0)))
      = Inr [JNull]"
  by (simp add: run_defs)

text \<open>
  Claim C3, amended. A \<open>close\<close> that the driver carries out leaves the instance
  unconnected. On an unconnected instance each of the six data operations rejects with
  the \<open>DatabaseError\<close> \<open>Database not connected. Call connect() first.\<close> and changes nothing;
  so under any sequence of data operations and further \<open>close\<close> calls the instance, the
  storage and the statements issued stay as they are, and every data operation of the
  sequence rejects with that error. A later \<open>connect\<close> that the driver carries out
  connects the same instance again.
\<close>

theorem closed_until_reconnected:
  "(db c = Some h \<and> drv_close D h (storage c) = (Inr u, s') \<longrightarrow>
      close D c = (Inr (), c\<lparr>db := None, storage := s'\<rparr>))
   \<and> (db c = None \<longrightarrow>
      createTable D t cols c =
        (Inl (DatabaseError ''Database not connected. Call connect() first.''), c)
      \<and> find_records D t opts c =
        (Inl (DatabaseError ''Database not connected. Call connect() first.''), c)
      \<and> findOne D t opts c =
        (Inl (DatabaseError ''Database not connected. Call connect() first.''), c)
      \<and> create D t data uuid c =
        (Inl (DatabaseError ''Database not connected. Call connect() first.''), data, c)
      \<and> update D t whr data c =
        (Inl (DatabaseError ''Database not connected. Call connect() first.''), c)
      \<and> delete D t whr c =
        (Inl (DatabaseError ''Database not connected. Call connect() first.''), c))
   \<and> (db c = None \<and> Connect \<notin> set calls \<longrightarrow>
      perform_all D calls c = c
      \<and> (\<forall>x \<in> set calls. data_operation x \<longrightarrow>
            perform D x c =
              (Some (DatabaseError ''Database not connected. Call connect() first.''), c)))
   \<and> (drv_open D (database c) (storage c) = (Inr h', s'') \<longrightarrow>
      connect D c = (Inr (), c\<lparr>db := Some h', storage := s''\<rparr>)
      \<and> ensureConnected (snd (connect D c)) = Inr h')"
proof -
  have closes: "db c = Some h \<and> drv_close D h (storage c) = (Inr u, s') \<longrightarrow>
      close D c = (Inr (), c\<lparr>db := None, storage := s'\<rparr>)"
    by (simp add: close_def)
  have rejects: "db c = None \<longrightarrow>
      createTable D t cols c =
        (Inl (DatabaseError ''Database not connected. Call connect() first.''), c)
      \<and> find_records D t opts c =
        (Inl (DatabaseError ''Database not connected. Call connect() first.''), c)
      \<and> findOne D t opts c =
        (Inl (DatabaseError ''Database not connected. Call connect() first.''), c)
      \<and> create D t data uuid c =
        (Inl (DatabaseError ''Database not connected. Call connect() first.''), data, c)
      \<and> update D t whr data c =
        (Inl (DatabaseError ''Database not connected. Call connect() first.''), c)
      \<and> delete D t whr c =
        (Inl (DatabaseError ''Database not connected. Call connect() first.''), c)"
    by (simp add: createTable_def find_records_def findOne_def create_def update_def
        delete_def ensureConnected_def)
  have stays: "db c = None \<and> Connect \<notin> set calls \<longrightarrow>
      perform_all D calls c = c
      \<and> (\<forall>x \<in> set calls. data_operation x \<longrightarrow>
            perform D x c =
              (Some (DatabaseError ''Database not connected. Call connect() first.''), c))"
  proof (intro impI conjI ballI)
    assume a: "db c = None \<and> Connect \<notin> set calls"
    then show "perform_all D calls c = c" by (simp add: perform_all_unconnected)
    fix x
    assume "x \<in> set calls" and "data_operation x"
    with a have "x \<noteq> Connect" by auto
    with a \<open>data_operation x\<close>
    show "perform D x c =
        (Some (DatabaseError ''Database not connected. Call connect() first.''), c)"
      by (simp add: perform_unconnected)
  qed
  have opens: "drv_open D (database c) (storage c) = (Inr h', s'') \<longrightarrow>
      connect D c = (Inr (), c\<lparr>db := Some h', storage := s''\<rparr>)
      \<and> ensureConnected (snd (connect D c)) = Inr h'"
    by (simp add: connect_def ensureConnected_def)
  from closes rejects stays opens show ?thesis by (intro conjI)
qed

theorem closed_until_reconnected_witness:
  "close (fixed_driver 1 JNull) connected_client = (Inr (), connected_client\<lparr>db := None\<rparr>)
   \<and> perform_all (fixed_driver 1 JNull)
        [Find ''users'' no_options, Close, Delete ''users'' [(''id'', JStr ''x'')],
         Create ''users'' [(''name'', JStr ''A'')] ''u1'']
        (connected_client\<lparr>db := None\<rparr>) = connected_client\<lparr>db := None\<rparr>
   \<and> perform (fixed_driver 1 JNull) (Find ''users'' no_options) (connected_client\<lparr>db := None\<rparr>) =
       (Some (DatabaseError ''Database not connected. Call connect() first.''),
        connected_client\<lparr>db := None\<rparr>)
   \<and> delete (fixed_driver 1 JNull) ''users'' [(''id'', JStr ''x'')] (connected_client\<lparr>db := None\<rparr>) =
       (Inl (DatabaseError ''Database not connected. Call connect() first.''),
        connected_client\<lparr>db := None\<rparr>)
   \<and> connect (fixed_driver 1 JNull) (connected_client\<lparr>db := None\<rparr>) = (Inr (), connected_client)
   \<and> ensureConnected (snd (connect (fixed_driver 1 JNull) (connected_client\<lparr>db := None\<rparr>))) = Inr 0"
proof -
  have conn: "db connected_client = Some 0"
    by (simp add: connected_client_def)
  have cl: "drv_close (fixed_driver 1 JNull) 0 (storage connected_client) = (Inr (), 0)"
    by (simp add: fixed_driver_def connected_client_def)
  have closed: "db (connected_client\<lparr>db := None\<rparr>) = None"
    by simp
  have calls: "Connect \<notin> set [Find ''users'' no_options, Close, Delete ''users'' [(''id'', JStr ''x'')],
         Create ''users'' [(''name'', JStr ''A'')] ''u1'']"
    by simp
  have op: "drv_open (fixed_driver 1 JNull) (database (connected_client\<lparr>db := None\<rparr>))
      (storage (connected_client\<lparr>db := None\<rparr>)) = (Inr 0, 0)"
    by (simp add: fixed_driver_def connected_client_def)
  from conn cl have a: "close (fixed_driver 1 JNull) connected_client =
      (Inr (), connected_client\<lparr>db := None, storage := 0\<rparr>)"
    by (intro closed_until_reconnected [where h = 0 and u = "()", THEN conjunct1, rule_format] conjI)
  then have a': "close (fixed_driver 1 JNull) connected_client =
      (Inr (), connected_client\<lparr>db := None\<rparr>)"
    by (simp add: connected_client_def)
  note rejects = closed_until_reconnected
    [where c = "connected_client\<lparr>db := None\<rparr>" and D = "fixed_driver 1 JNull"
       and t = "''users''" and whr = "[(''id'', JStr ''x'')]" and cols = "[]"
       and opts = no_options and data = "[]" and uuid = "''u1''",
     THEN conjunct2, THEN conjunct1, rule_format, OF closed]
  from rejects have r: "delete (fixed_driver 1 JNull) ''users'' [(''id'', JStr ''x'')]
        (connected_client\<lparr>db := None\<rparr>) =
       (Inl (DatabaseError ''Database not connected. Call connect() first.''),
        connected_client\<lparr>db := None\<rparr>)"
    by blast
  note stays = closed_until_reconnected
    [where c = "connected_client\<lparr>db := None\<rparr>" and D = "fixed_driver 1 JNull"
       and calls = "[Find ''users'' no_options, Close, Delete ''users'' [(''id'', JStr ''x'')],
         Create ''users'' [(''name'', JStr ''A'')] ''u1'']",
     THEN conjunct2, THEN conjunct2, THEN conjunct1, rule_format, OF conjI, OF closed calls]
  note b = stays [THEN conjunct1]
  have c: "perform (fixed_driver 1 JNull) (Find ''users'' no_options)
        (connected_client\<lparr>db := None\<rparr>) =
       (Some (DatabaseError ''Database not connected. Call connect() first.''),
        connected_client\<lparr>db := None\<rparr>)"
    by (rule stays [THEN conjunct2, rule_format]) simp_all
  have run_find: "find_records (fixed_driver 1 JNull) ''users'' no_options
        (connected_client\<lparr>db := None\<rparr>) =
       (Inl (DatabaseError ''Database not connected. Call connect() first.''),
        connected_client\<lparr>db := None\<rparr>)"
    by (simp add: find_records_def ensureConnected_def)
  have run_all: "perform_all (fixed_driver 1 JNull)
        [Find ''users'' no_options, Close, Delete ''users'' [(''id'', JStr ''x'')],
         Create ''users'' [(''name'', JStr ''A'')] ''u1'']
        (connected_client\<lparr>db := None\<rparr>) = connected_client\<lparr>db := None\<rparr>"
    by (simp add: find_records_def delete_def create_def close_def ensureConnected_def)
  have run_connect: "connect (fixed_driver 1 JNull) (connected_client\<lparr>db := None\<rparr>) =
      (Inr (), connected_client)"
    by (simp add: connect_def fixed_driver_def connected_client_def)
  from closed_until_reconnected
    [where c = "connected_client\<lparr>db := None\<rparr>" and D = "fixed_driver 1 JNull"
       and h' = 0 and s'' = 0, THEN conjunct2, THEN conjunct2, THEN conjunct2, rule_format, OF op]
  have d: "connect (fixed_driver 1 JNull) (connected_client\<lparr>db := None\<rparr>) = (Inr (), connected_client)"
    and e: "ensureConnected (snd (connect (fixed_driver 1 JNull) (connected_client\<lparr>db := None\<rparr>))) = Inr 0"
    by (simp_all add: connected_client_def)
  from run_find c have "rejection (fst (find_records (fixed_driver 1 JNull) ''users'' no_options
        (connected_client\<lparr>db := None\<rparr>))) =
      fst (perform (fixed_driver 1 JNull) (Find ''users'' no_options)
        (connected_client\<lparr>db := None\<rparr>))"
    by simp
  from a' b run_all run_connect c r d e show ?thesis by (intro conjI)
qed

end
